theory Spec2Isabelle
  imports Main
begin

section \<open>Python strings\<close>

text \<open>
  The script works on Python \<open>str\<close> values. A character is modelled by a \<^typ>\<open>char\<close>, read
  as the code point of the same number (0 to 255), so the character classes below are those
  of Python's \<open>str\<close> methods restricted to code points below 256.
\<close>

definition LF :: char where
  "LF = CHR 0x0A"

definition CR :: char where
  "CR = CHR 0x0D"

definition isspace :: "char \<Rightarrow> bool" where
  \<comment> \<open>\<open>str.isspace\<close> on one character: TAB, LF, VT, FF, CR, FS, GS, RS, US, space, NEL, NBSP.\<close>
  "isspace c =
     (let n = (of_char c :: nat)
      in (9 \<le> n \<and> n \<le> 13) \<or> (28 \<le> n \<and> n \<le> 32) \<or> n = 133 \<or> n = 160)"

definition is_linebreak :: "char \<Rightarrow> bool" where
  \<comment> \<open>The line boundaries of \<open>str.splitlines\<close>: LF, VT, FF, CR, FS, GS, RS, NEL.\<close>
  "is_linebreak c =
     (let n = (of_char c :: nat)
      in (10 \<le> n \<and> n \<le> 13) \<or> (28 \<le> n \<and> n \<le> 30) \<or> n = 133)"

definition is_upper :: "char \<Rightarrow> bool" where
  \<comment> \<open>The characters that \<open>str.lower\<close> changes: A to Z, and U+00C0 to U+00DE except U+00D7.\<close>
  "is_upper c =
     (let n = (of_char c :: nat)
      in (65 \<le> n \<and> n \<le> 90) \<or> (192 \<le> n \<and> n \<le> 222 \<and> n \<noteq> 215))"

definition lower_char :: "char \<Rightarrow> char" where
  \<comment> \<open>The lower-case letter is 32 above the upper-case one: bit 5, clear in every upper-case
      letter, is set.\<close>
  "lower_char c =
     (if is_upper c
      then (case c of Char b0 b1 b2 b3 b4 b5 b6 b7 \<Rightarrow> Char b0 b1 b2 b3 b4 True b6 b7)
      else c)"

definition lower :: "string \<Rightarrow> string" where
  "lower s = map lower_char s"

definition lstrip :: "string \<Rightarrow> string" where
  "lstrip s = dropWhile isspace s"

definition rstrip :: "string \<Rightarrow> string" where
  "rstrip s = rev (dropWhile isspace (rev s))"

definition strip :: "string \<Rightarrow> string" where
  "strip s = rstrip (lstrip s)"

fun startswith :: "string \<Rightarrow> string \<Rightarrow> bool" where
  "startswith s [] = True"
| "startswith [] (p # ps) = False"
| "startswith (c # cs) (p # ps) = (c = p \<and> startswith cs ps)"

fun contains :: "string \<Rightarrow> string \<Rightarrow> bool" where
  \<comment> \<open>\<open>contains needle hay\<close> is Python's \<open>needle in hay\<close>.\<close>
  "contains needle [] = (needle = [])"
| "contains needle (c # cs) = (startswith (c # cs) needle \<or> contains needle cs)"

function splitlines_from :: "string \<Rightarrow> string \<Rightarrow> string list" where
  \<comment> \<open>\<open>splitlines_from cur s\<close>: the lines of \<open>s\<close>, the first of them continuing \<open>cur\<close>.
      CR LF is one boundary; a text that ends in a boundary has no empty last line.\<close>
  "splitlines_from cur [] = (if cur = [] then [] else [cur])"
| "splitlines_from cur (c # cs) =
     (if is_linebreak c
      then cur # splitlines_from [] (if c = CR \<and> take 1 cs = [LF] then tl cs else cs)
      else splitlines_from (cur @ [c]) cs)"
  by pat_completeness auto
termination
  by (relation "measure (\<lambda>(cur, s). length s)") auto

definition splitlines :: "string \<Rightarrow> string list" where
  "splitlines s = splitlines_from [] s"

fun split_from :: "string \<Rightarrow> string \<Rightarrow> string list" where
  \<comment> \<open>\<open>str.split()\<close> without arguments: the maximal runs of non-whitespace characters.\<close>
  "split_from cur [] = (if cur = [] then [] else [cur])"
| "split_from cur (c # cs) =
     (if isspace c
      then (if cur = [] then split_from [] cs else cur # split_from [] cs)
      else split_from (cur @ [c]) cs)"

definition split :: "string \<Rightarrow> string list" where
  "split s = split_from [] s"

definition after_colon :: "string \<Rightarrow> string option" where
  \<comment> \<open>\<open>line.split(":", 1)[1]\<close>: the text after the first colon; \<open>None\<close> is the IndexError
      of a line without a colon.\<close>
  "after_colon line =
     (case dropWhile (\<lambda>c. c \<noteq> CHR '':'') line of
        [] \<Rightarrow> None
      | _ # rest \<Rightarrow> Some rest)"

definition truthy :: "string option \<Rightarrow> bool" where
  \<comment> \<open>The truth value of an \<open>Optional[str]\<close>: \<open>None\<close> and the empty string are false.\<close>
  "truthy p = (case p of None \<Rightarrow> False | Some s \<Rightarrow> s \<noteq> [])"

section \<open>Device catalog parser\<close>

text \<open>
  A catalog record is the dict built by \<open>list_avd_devices\<close>: it is created with the key
  \<open>"id"\<close> and may later receive the key \<open>"name"\<close>; no other key is ever stored.
\<close>

record device =
  dev_id :: string
  dev_name :: "string option"

definition get_name :: "device \<Rightarrow> string" where
  \<comment> \<open>\<open>d.get("name", "")\<close>\<close>
  "get_name d = (case dev_name d of None \<Rightarrow> [] | Some n \<Rightarrow> n)"

definition get_id :: "device \<Rightarrow> string" where
  \<comment> \<open>\<open>d.get("id", "")\<close>; the key is always there.\<close>
  "get_id d = dev_id d"

text \<open>
  The loop of \<open>list_avd_devices\<close> over the lines of the tool's output. \<open>devices\<close> is the list
  built so far. \<open>current\<close> is a reference: \<open>Some i\<close> when it is the dict stored at
  \<open>devices[i]\<close>, \<open>None\<close> while it is still the initial \<open>{}\<close>, which is in no list, so that
  a name written to it is lost. An exception inside the loop ends it with the records
  appended so far (\<open>except Exception: pass\<close>).
\<close>

fun parse_lines :: "device list \<Rightarrow> nat option \<Rightarrow> string list \<Rightarrow> device list" where
  "parse_lines devices current [] = devices"
| "parse_lines devices current (l # ls) =
     (let line = strip l in
      if line = [] then parse_lines devices current ls
      else if startswith line ''id:'' then
        (case after_colon line of
           None \<Rightarrow> devices
         | Some r \<Rightarrow>
             parse_lines (devices @ [\<lparr>dev_id = strip r, dev_name = None\<rparr>])
               (Some (length devices)) ls)
      else if startswith line ''name:'' then
        (case after_colon line of
           None \<Rightarrow> devices
         | Some r \<Rightarrow>
             (case current of
                None \<Rightarrow> parse_lines devices current ls
              | Some i \<Rightarrow>
                  parse_lines (devices[i := (devices ! i)\<lparr>dev_name := Some (strip r)\<rparr>])
                    current ls))
      else parse_lines devices current ls)"

definition parse_device_list :: "string \<Rightarrow> device list" where
  \<comment> \<open>Lines 89 to 100 of the script, on the captured standard output.\<close>
  "parse_device_list out = parse_lines [] None (splitlines out)"

section \<open>Processes, console and exceptions\<close>

text \<open>
  \<open>completed\<close> is what the script reads of a finished child process: its return code and
  its captured standard output, as text. \<open>system\<close> gives, for every command line, what
  happens when it is run: the tool cannot be executed, its output is not text in the
  expected encoding (the return code is still known), or it completes. Within one menu
  operation the script never runs the same command line twice, so a function of the command
  line describes any behaviour of the tools.
\<close>

record completed =
  returncode :: int
  stdout :: string

datatype failure =
  NotExecutable
| NotText int

type_synonym system = "string list \<Rightarrow> failure + completed"

datatype exn =
  CalledProcessError "string list" int
| ValueError
| OSError
| EOFError

datatype event =
  Print string
| PrintExc exn
| Prompt string
| Spawn "string list"

record world =
  stdin :: "string list"
  trace :: "event list"

type_synonym 'a io = "world \<Rightarrow> (exn + 'a) \<times> world"

definition ret :: "'a \<Rightarrow> 'a io" where
  "ret x w = (Inr x, w)"

definition raise :: "exn \<Rightarrow> 'a io" where
  "raise e w = (Inl e, w)"

definition bind :: "'a io \<Rightarrow> ('a \<Rightarrow> 'b io) \<Rightarrow> 'b io" where
  "bind m f w = (case m w of (Inl e, w') \<Rightarrow> (Inl e, w') | (Inr x, w') \<Rightarrow> f x w')"

definition try_except :: "'a io \<Rightarrow> (exn \<Rightarrow> 'a io option) \<Rightarrow> 'a io" where
  \<comment> \<open>\<open>try: m except ...: h\<close>; the handler is \<open>None\<close> on an exception that the \<open>except\<close>
      clause does not name, which then propagates.\<close>
  "try_except m h w =
     (case m w of
        (Inl e, w') \<Rightarrow> (case h e of None \<Rightarrow> (Inl e, w') | Some k \<Rightarrow> k w')
      | (Inr x, w') \<Rightarrow> (Inr x, w'))"

definition emit :: "event \<Rightarrow> unit io" where
  "emit ev w = (Inr (), w\<lparr>trace := trace w @ [ev]\<rparr>)"

definition print :: "string \<Rightarrow> unit io" where
  "print s = emit (Print s)"

definition input :: "string \<Rightarrow> string io" where
  \<comment> \<open>\<open>input(prompt)\<close>: writes the prompt and reads one line; EOFError when there is none.\<close>
  "input prompt =
     bind (emit (Prompt prompt))
       (\<lambda>_ w. case stdin w of
                 [] \<Rightarrow> (Inl EOFError, w)
               | l # ls \<Rightarrow> (Inr l, w\<lparr>stdin := ls\<rparr>))"

fun join :: "string \<Rightarrow> string list \<Rightarrow> string" where
  "join sep [] = []"
| "join sep [x] = x"
| "join sep (x # y # ys) = x @ sep @ join sep (y # ys)"

definition has_nul :: "string \<Rightarrow> bool" where
  "has_nul s = list_ex (\<lambda>c. c = CHR 0x00) s"

definition launch :: "system \<Rightarrow> string list \<Rightarrow> bool \<Rightarrow> exn + completed" where
  \<comment> \<open>What \<open>subprocess.run\<close> meets before it looks at the return code. An argument with a
      NUL character is a ValueError (embedded null byte), a tool that cannot be executed an
      OSError (FileNotFoundError, PermissionError), captured output that is not text a
      UnicodeDecodeError, which is a ValueError. Output that is not captured is not
      decoded.\<close>
  "launch sys cmd capture =
     (if list_ex has_nul cmd then Inl ValueError
      else case sys cmd of
             Inl NotExecutable \<Rightarrow> Inl OSError
           | Inl (NotText rc) \<Rightarrow>
               if capture then Inl ValueError else Inr \<lparr>returncode = rc, stdout = []\<rparr>
           | Inr res \<Rightarrow> Inr res)"

definition subprocess_run :: "system \<Rightarrow> string list \<Rightarrow> bool \<Rightarrow> bool \<Rightarrow> completed io" where
  \<comment> \<open>\<open>subprocess.run(cmd, check=check, capture_output=capture, text=capture)\<close>. The call
      is recorded whether or not the process can be started.\<close>
  "subprocess_run sys cmd check capture =
     bind (emit (Spawn cmd))
       (\<lambda>_. case launch sys cmd capture of
               Inl e \<Rightarrow> raise e
             | Inr res \<Rightarrow>
                 if check \<and> returncode res \<noteq> 0
                 then raise (CalledProcessError cmd (returncode res))
                 else ret res)"

definition run :: "system \<Rightarrow> string list \<Rightarrow> completed io" where
  \<comment> \<open>\<open>run(cmd)\<close>, always called with the defaults \<open>check=True\<close>, \<open>capture_output=False\<close>.\<close>
  "run sys cmd =
     bind (print (''+ '' @ join '' '' cmd)) (\<lambda>_. subprocess_run sys cmd True False)"

definition spawns :: "event list \<Rightarrow> string list list" where
  \<comment> \<open>The command lines given to \<open>subprocess.run\<close>, in order.\<close>
  "spawns evs = concat (map (\<lambda>ev. case ev of Spawn cmd \<Rightarrow> [cmd] | _ \<Rightarrow> []) evs)"

definition list_avd_devices :: "system \<Rightarrow> string option \<Rightarrow> device list io" where
  "list_avd_devices sys avdmanager_path =
     (case avdmanager_path of
        None \<Rightarrow> ret []
      | Some p \<Rightarrow>
          if p = [] then ret []
          else try_except
                 (bind (subprocess_run sys [p, ''list'', ''device''] True True)
                    (\<lambda>res. ret (parse_device_list (stdout res))))
                 (\<lambda>e. Some (ret [])))"

section \<open>AVD provisioner\<close>

definition DEFAULT_API_LEVEL :: string where
  "DEFAULT_API_LEVEL = ''31''"

definition DEFAULT_ABI :: string where
  "DEFAULT_ABI = ''x86_64''"

definition DEFAULT_TAG :: string where
  "DEFAULT_TAG = ''google_apis''"

definition system_image_pkg :: "string \<Rightarrow> string \<Rightarrow> string \<Rightarrow> string" where
  \<comment> \<open>\<open>f"system-images;android-{api};{tag};{abi}"\<close>\<close>
  "system_image_pkg api tag abi = ''system-images;android-'' @ api @ '';'' @ tag @ '';'' @ abi"

definition ensure_system_image :: "system \<Rightarrow> string option \<Rightarrow> string \<Rightarrow> string \<Rightarrow> string \<Rightarrow> unit io" where
  "ensure_system_image sys sdkmanager_path api tag abi =
     (case sdkmanager_path of
        None \<Rightarrow> print ''sdkmanager not found; cannot install system images automatically.''
      | Some p \<Rightarrow>
          if p = [] then print ''sdkmanager not found; cannot install system images automatically.''
          else
            let pkg = system_image_pkg api tag abi in
            bind (print (''Ensuring system image package is installed: '' @ pkg))
              (\<lambda>_. try_except
                      (bind (run sys [p, pkg]) (\<lambda>_. ret ()))
                      (\<lambda>e. case e of
                          CalledProcessError c rc \<Rightarrow>
                            Some (bind (print ''sdkmanager failed. You may need to run the command manually with correct SDK tools installed.'')
                                    (\<lambda>_. emit (PrintExc e)))
                        | _ \<Rightarrow> None)))"

definition avd_create_cmd :: "string \<Rightarrow> string \<Rightarrow> string \<Rightarrow> string option \<Rightarrow> string list" where
  \<comment> \<open>Lines 137 to 139: the command line of the creation step.\<close>
  "avd_create_cmd avdmanager name pkg device_profile =
     [avdmanager, ''create'', ''avd'', ''--name'', name, ''--package'', pkg, ''--force'']
     @ (case device_profile of
          None \<Rightarrow> []
        | Some prof \<Rightarrow> if prof = [] then [] else [''--device'', prof])"

definition create_avd :: "system \<Rightarrow> string option \<Rightarrow> string option \<Rightarrow> string \<Rightarrow> string option \<Rightarrow> string \<Rightarrow> unit io" where
  "create_avd sys avdmanager_path sdkmanager_path name device_profile api =
     bind (ensure_system_image sys sdkmanager_path api DEFAULT_TAG DEFAULT_ABI)
       (\<lambda>_. let pkg = system_image_pkg api DEFAULT_TAG DEFAULT_ABI in
             case avdmanager_path of
               None \<Rightarrow> print ''avdmanager not found. Install Android command-line tools and ensure avdmanager is on PATH.''
             | Some p \<Rightarrow>
                 if p = [] then print ''avdmanager not found. Install Android command-line tools and ensure avdmanager is on PATH.''
                 else
                   let cmd = avd_create_cmd p name pkg device_profile in
                   bind (print (''Creating AVD '' @ [CHR 0x27] @ name @ [CHR 0x27] @ '' (device profile: ''
                                @ (case device_profile of
                                     None \<Rightarrow> ''default''
                                   | Some prof \<Rightarrow> if prof = [] then ''default'' else prof) @ '')''))
                     (\<lambda>_. try_except
                             (bind (run sys cmd)
                                (\<lambda>_. print (''AVD '' @ [CHR 0x27] @ name @ [CHR 0x27] @ '' created.'')))
                             (\<lambda>e. case e of
                                 CalledProcessError c rc \<Rightarrow> Some (print ''Failed to create AVD. Output:'')
                               | _ \<Rightarrow> None)))"

section \<open>Device selectors\<close>

text \<open>
  The selection loops of \<open>create_samsung_device\<close> (lines 179 to 193) and of
  \<open>create_pixel_device\<close> (lines 205 to 211), each as a function of the catalog that gives
  the final value of \<open>preferred\<close>.
\<close>

fun samsung_scan :: "device list \<Rightarrow> string option" where
  \<comment> \<open>Lines 179 to 184: \<open>preferred\<close> starts as \<open>None\<close>; the first match sets it and breaks.\<close>
  "samsung_scan [] = None"
| "samsung_scan (d # ds) =
     (let name = lower (get_name d) in
      if contains ''galaxy'' name \<or> contains ''samsung'' name
         \<or> contains ''large'' name \<or> contains ''xlarge'' name
      then Some (dev_id d)
      else samsung_scan ds)"

fun fallback_scan :: "string \<Rightarrow> string option \<Rightarrow> device list \<Rightarrow> string option" where
  \<comment> \<open>Lines 188 to 191: the inner loop for one fallback string, from the current
      \<open>preferred\<close>.\<close>
  "fallback_scan fallback preferred [] = preferred"
| "fallback_scan fallback preferred (d # ds) =
     (if contains (lower fallback) (lower (get_name d))
         \<or> contains (lower fallback) (lower (get_id d))
      then Some (dev_id d)
      else fallback_scan fallback preferred ds)"

fun fallback_loop :: "string list \<Rightarrow> string option \<Rightarrow> device list \<Rightarrow> string option" where
  \<comment> \<open>Lines 187 to 193: the outer loop; it breaks once \<open>preferred\<close> is true.\<close>
  "fallback_loop [] preferred devices = preferred"
| "fallback_loop (fallback # fs) preferred devices =
     (let preferred' = fallback_scan fallback preferred devices in
      if truthy preferred' then preferred' else fallback_loop fs preferred' devices)"

definition samsung_fallbacks :: "string list" where
  "samsung_fallbacks = [''pixel_6'', ''pixel_5'', ''Nexus 6'', ''Nexus 5X'']"

definition samsung_select :: "device list \<Rightarrow> string option" where
  "samsung_select devices =
     (let preferred = samsung_scan devices in
      if \<not> truthy preferred then fallback_loop samsung_fallbacks preferred devices
      else preferred)"

definition create_samsung_device :: "(string \<rightharpoonup> string) \<Rightarrow> system \<Rightarrow> unit io" where
  "create_samsung_device found_tools sys =
     (let avdmanager_path = found_tools ''avdmanager'';
          sdkmanager_path = found_tools ''sdkmanager''
      in bind (list_avd_devices sys avdmanager_path)
           (\<lambda>devices.
              bind (create_avd sys avdmanager_path sdkmanager_path ''Samsung_Device_AVD''
                      (samsung_select devices) DEFAULT_API_LEVEL)
                (\<lambda>_. print ''You can start the emulator with option to run headless or with window.'')))"

fun pixel_select :: "device list \<Rightarrow> string option" where
  "pixel_select [] = None"
| "pixel_select (d # ds) =
     (let name = lower (get_name d) in
      if contains ''pixel'' name \<or> contains ''pixel_6'' (lower (get_id d))
         \<or> contains ''pixel_3'' (lower (get_id d))
      then Some (dev_id d)
      else pixel_select ds)"

definition create_pixel_device :: "(string \<rightharpoonup> string) \<Rightarrow> system \<Rightarrow> unit io" where
  "create_pixel_device found_tools sys =
     (let avdmanager_path = found_tools ''avdmanager'';
          sdkmanager_path = found_tools ''sdkmanager''
      in bind (list_avd_devices sys avdmanager_path)
           (\<lambda>devices.
              bind (create_avd sys avdmanager_path sdkmanager_path ''Pixel_Device_AVD''
                      (pixel_select devices) DEFAULT_API_LEVEL)
                (\<lambda>_. print ''Pixel-like AVD created.'')))"

section \<open>Connected devices and the system dump\<close>

definition is_digit :: "char \<Rightarrow> bool" where
  "is_digit c = (let n = (of_char c :: nat) in 48 \<le> n \<and> n \<le> 57)"

definition digit_val :: "char \<Rightarrow> nat" where
  "digit_val c = of_char c - 48"

fun int_digits :: "nat \<Rightarrow> string \<Rightarrow> nat option" where
  \<comment> \<open>The digits after a first digit, with the value read so far; one underscore may stand
      between two digits.\<close>
  "int_digits acc [] = Some acc"
| "int_digits acc (c # cs) =
     (if is_digit c then int_digits (10 * acc + digit_val c) cs
      else if c = CHR ''_'' then
        (case cs of
           [] \<Rightarrow> None
         | d # ds \<Rightarrow> if is_digit d then int_digits (10 * acc + digit_val d) ds else None)
      else None)"

definition INT_MAX_STR_DIGITS :: nat where
  \<comment> \<open>The default of \<open>sys.get_int_max_str_digits()\<close>.\<close>
  "INT_MAX_STR_DIGITS = 4300"

definition int_unsigned :: "string \<Rightarrow> nat option" where
  \<comment> \<open>The digits of a decimal literal. Every digit counts towards the limit, leading zeros
      too; underscores do not.\<close>
  "int_unsigned s =
     (if length (filter is_digit s) > INT_MAX_STR_DIGITS then None
      else case s of
             [] \<Rightarrow> None
           | d # ds \<Rightarrow> if is_digit d then int_digits (digit_val d) ds else None)"

definition py_int :: "string \<Rightarrow> int option" where
  \<comment> \<open>\<open>int(s)\<close> in base 10: surrounding whitespace, an optional sign, decimal digits.
      \<open>None\<close> is the ValueError, also raised for more digits than the limit.\<close>
  "py_int s =
     (case strip s of
        [] \<Rightarrow> None
      | c # cs \<Rightarrow>
          if c = CHR ''-'' then map_option (\<lambda>n. - int n) (int_unsigned cs)
          else if c = CHR ''+'' then map_option int (int_unsigned cs)
          else map_option int (int_unsigned (c # cs)))"

definition py_index :: "'a list \<Rightarrow> int \<Rightarrow> 'a option" where
  \<comment> \<open>\<open>xs[i]\<close>: a negative index counts from the end; \<open>None\<close> is the IndexError.\<close>
  "py_index xs i =
     (let n = int (length xs); j = (if i < 0 then n + i else i)
      in if 0 \<le> j \<and> j < n then Some (xs ! nat j) else None)"

fun str_nat :: "nat \<Rightarrow> string" where
  \<comment> \<open>\<open>str(n)\<close> for a natural number.\<close>
  "str_nat n =
     (if n < 10 then [''0123456789'' ! n]
      else str_nat (n div 10) @ [''0123456789'' ! (n mod 10)])"

declare str_nat.simps [simp del]

fun attached_devices :: "string list \<Rightarrow> (string \<times> string) list" where
  \<comment> \<open>Lines 226 to 232: the serial and state of every listed device.\<close>
  "attached_devices [] = []"
| "attached_devices (l # ls) =
     (if strip l = [] then attached_devices ls
      else let parts = split l in
           if length parts \<ge> 2 then (parts ! 0, parts ! 1) # attached_devices ls
           else attached_devices ls)"

definition parse_adb_devices :: "string \<Rightarrow> (string \<times> string) list" where
  \<comment> \<open>Lines 224 to 232, on the captured output of \<open>adb devices\<close>; its first line is the
      header.\<close>
  "parse_adb_devices out = attached_devices (drop 1 (splitlines (strip out)))"

fun print_devices :: "nat \<Rightarrow> (string \<times> string) list \<Rightarrow> unit io" where
  \<comment> \<open>Lines 237 and 238, \<open>enumerate\<close> counting from the first argument.\<close>
  "print_devices idx [] = ret ()"
| "print_devices idx ((serial, state) # ds) =
     bind (print (str_nat idx @ '') '' @ serial @ '' ('' @ state @ '')''))
       (\<lambda>_. print_devices (Suc idx) ds)"

definition choose_connected_device :: "system \<Rightarrow> string option \<Rightarrow> string option io" where
  "choose_connected_device sys adb_path =
     (case adb_path of
        None \<Rightarrow> bind (print ''adb not found.'') (\<lambda>_. ret None)
      | Some adb \<Rightarrow>
          if adb = [] then bind (print ''adb not found.'') (\<lambda>_. ret None)
          else
            try_except
              (bind (subprocess_run sys [adb, ''devices''] True True)
                 (\<lambda>res.
                    let devices = parse_adb_devices (stdout res) in
                    if devices = []
                    then bind (print ''No devices/emulators attached.'') (\<lambda>_. ret None)
                    else
                      bind (print ''Connected devices/emulators:'')
                        (\<lambda>_. bind (print_devices 1 devices)
                        (\<lambda>_. bind (input ''Pick device number (default 1): '')
                        (\<lambda>l. let choice = (if strip l = [] then ''1'' else strip l) in
                              case py_int choice of
                                None \<Rightarrow> bind (print ''Invalid choice.'') (\<lambda>_. ret None)
                              | Some n \<Rightarrow>
                                  (case py_index devices (n - 1) of
                                     None \<Rightarrow> bind (print ''Invalid choice.'') (\<lambda>_. ret None)
                                   | Some dev \<Rightarrow> ret (Some (fst dev))))))))
              (\<lambda>e. case e of
                  CalledProcessError c rc \<Rightarrow>
                    Some (bind (print ''adb devices failed.'') (\<lambda>_. ret None))
                | _ \<Rightarrow> None))"

definition remote_img :: string where
  "remote_img = ''/sdcard/system.img''"

definition dd_cmd :: string where
  "dd_cmd = ''su -c '' @ [CHR 0x27] @ ''dd if=/dev/block/by-name/system of='' @ remote_img
            @ '' bs=4096 || dd if=/dev/block/platform/*/by-name/system of='' @ remote_img
            @ '' bs=4096'' @ [CHR 0x27]"

definition dump_dd :: "system \<Rightarrow> string \<Rightarrow> string \<Rightarrow> unit io" where
  \<comment> \<open>Lines 280 to 292: method 1.\<close>
  "dump_dd sys adb serial =
     bind (print ''Attempting dd on device (this will likely fail on unrooted devices).'')
       (\<lambda>_. try_except
               (bind (run sys [adb, ''-s'', serial, ''shell'', dd_cmd])
                  (\<lambda>_. let local_name = serial @ ''_system.img'' in
                        bind (run sys [adb, ''-s'', serial, ''pull'', remote_img, local_name])
                  (\<lambda>_. bind (print (''Pulled image to '' @ local_name))
                  (\<lambda>_. bind (print (''Cleaning remote image '' @ remote_img))
                  (\<lambda>_. bind (run sys [adb, ''-s'', serial, ''shell'', ''rm '' @ remote_img])
                  (\<lambda>_. ret ()))))))
               (\<lambda>e. case e of
                   CalledProcessError c rc \<Rightarrow>
                     Some (print ''Failed to dd/pull system image. Check if the device is rooted or try method 2 (pull /system).'')
                 | _ \<Rightarrow> None))"

definition dump_pull :: "system \<Rightarrow> string \<Rightarrow> string \<Rightarrow> unit io" where
  \<comment> \<open>Lines 295 to 302: method 2.\<close>
  "dump_pull sys adb serial =
     (let local_dir = serial @ ''_system'' in
      bind (print (''Attempting to pull /system -> '' @ local_dir
                   @ '' (may be restricted on modern devices).''))
        (\<lambda>_. try_except
                (bind (run sys [adb, ''-s'', serial, ''pull'', ''/system'', local_dir])
                   (\<lambda>_. print (''/system pulled to local directory: '' @ local_dir)))
                (\<lambda>e. case e of
                    CalledProcessError c rc \<Rightarrow>
                      Some (print ''Recursive pull failed. Consider using a rooted device or an emulator to perform a full dump.'')
                  | _ \<Rightarrow> None)))"

definition create_system_image_dump :: "(string \<rightharpoonup> string) \<Rightarrow> system \<Rightarrow> unit io" where
  "create_system_image_dump found_tools sys =
     (case found_tools ''adb'' of
        None \<Rightarrow> print ''adb not found. Cannot continue.''
      | Some adb \<Rightarrow>
          if adb = [] then print ''adb not found. Cannot continue.''
          else
            bind (choose_connected_device sys (Some adb))
              (\<lambda>serial_opt.
                 case serial_opt of
                   None \<Rightarrow> ret ()
                 | Some serial \<Rightarrow>
                     if serial = [] then ret ()
                     else
                       bind (print ''NOTE: Creating a system image typically requires root on the target device or running an emulator.'')
                         (\<lambda>_. bind (print ''Options:'')
                         (\<lambda>_. bind (print ''1) Attempt a block-level dd (requires root).'')
                         (\<lambda>_. bind (print ''2) Try a recursive pull of /system (may be limited by permissions).'')
                         (\<lambda>_. bind (input ''Choose method (1 or 2) [1]: '')
                         (\<lambda>l. let choice = (if strip l = [] then ''1'' else strip l) in
                               if choice = ''1'' then dump_dd sys adb serial
                               else dump_pull sys adb serial)))))))"

section \<open>The properties, in the words of the specification\<close>

definition icontains :: "string \<Rightarrow> string \<Rightarrow> bool" where
  \<comment> \<open>Case-insensitive containment: \<open>needle\<close> is a substring of \<open>hay\<close> once both are
      lower-cased.\<close>
  "icontains needle hay = contains (lower needle) (lower hay)"

definition samsung_keywords :: "string list" where
  "samsung_keywords = [''galaxy'', ''samsung'', ''large'', ''xlarge'']"

definition samsung_keyword_match :: "device \<Rightarrow> bool" where
  \<comment> \<open>The record's name contains one of the Samsung keywords, in any case. A record
      without a name has the empty name.\<close>
  "samsung_keyword_match d = list_ex (\<lambda>k. icontains k (get_name d)) samsung_keywords"

definition fallback_match :: "string \<Rightarrow> device \<Rightarrow> bool" where
  \<comment> \<open>The record's name or identifier contains the fallback string, in any case.\<close>
  "fallback_match f d = (icontains f (get_name d) \<or> icontains f (dev_id d))"

definition any_fallback_match :: "device \<Rightarrow> bool" where
  "any_fallback_match d = list_ex (\<lambda>f. fallback_match f d) samsung_fallbacks"

definition pixel_match :: "device \<Rightarrow> bool" where
  "pixel_match d =
     (icontains ''pixel'' (get_name d) \<or> icontains ''pixel_6'' (dev_id d)
      \<or> icontains ''pixel_3'' (dev_id d))"

subsection \<open>Concrete inputs\<close>

definition world0 :: world where
  \<comment> \<open>Nothing typed, nothing printed yet.\<close>
  "world0 = \<lparr>stdin = [], trace = []\<rparr>"

definition two_tools :: "string \<rightharpoonup> string" where
  "two_tools = [''avdmanager'' \<mapsto> ''avdmanager'', ''sdkmanager'' \<mapsto> ''sdkmanager'']"

definition tools_succeed :: system where
  \<comment> \<open>Every command exits with status 0 and prints nothing.\<close>
  "tools_succeed cmd = Inr \<lparr>returncode = 0, stdout = []\<rparr>"

definition sdkmanager_not_executable :: system where
  \<comment> \<open>The installation of the API 31 image cannot be started; every other command exits
      with status 0 and prints nothing.\<close>
  "sdkmanager_not_executable cmd =
     (if cmd = [''sdkmanager'', ''system-images;android-31;google_apis;x86_64'']
      then Inl NotExecutable
      else Inr \<lparr>returncode = 0, stdout = []\<rparr>)"

definition sdkmanager_fails :: system where
  \<comment> \<open>The installation of the API 31 image exits with status 1; everything else succeeds.\<close>
  "sdkmanager_fails cmd =
     Inr \<lparr>returncode =
           (if cmd = [''sdkmanager'', ''system-images;android-31;google_apis;x86_64''] then 1 else 0),
         stdout = []\<rparr>"

definition plain_listing :: string where
  "plain_listing = ''id: 1'' @ [LF] @ ''name: Small Phone''"

definition prints_plain_listing :: system where
  "prints_plain_listing cmd = Inr \<lparr>returncode = 0, stdout = plain_listing\<rparr>"

definition nexus_first_catalog :: "device list" where
  "nexus_first_catalog =
     [\<lparr>dev_id = ''9'', dev_name = Some ''Nexus 6''\<rparr>,
      \<lparr>dev_id = ''30'', dev_name = Some ''pixel_6''\<rparr>]"

definition nexus_pixel5_catalog :: "device list" where
  "nexus_pixel5_catalog =
     [\<lparr>dev_id = ''9'', dev_name = Some ''Nexus 6''\<rparr>,
      \<lparr>dev_id = ''23'', dev_name = Some ''pixel_5''\<rparr>]"

definition empty_id_listing :: string where
  "empty_id_listing =
     ''id:'' @ [LF] @ ''name: Galaxy S'' @ [LF] @ ''id: 7'' @ [LF] @ ''name: pixel_6''"

definition empty_id_catalog :: "device list" where
  "empty_id_catalog =
     [\<lparr>dev_id = [], dev_name = Some ''Galaxy S''\<rparr>,
      \<lparr>dev_id = ''7'', dev_name = Some ''pixel_6''\<rparr>]"

definition galaxy_second_catalog :: "device list" where
  "galaxy_second_catalog =
     [\<lparr>dev_id = ''1'', dev_name = Some ''Small Phone''\<rparr>,
      \<lparr>dev_id = ''5'', dev_name = Some ''GALAXY Nexus''\<rparr>,
      \<lparr>dev_id = ''30'', dev_name = Some ''pixel_6''\<rparr>]"

definition pixel5_listing :: string where
  "pixel5_listing = ''id: 23'' @ [LF] @ ''name: '' @ [CHR 0x22] @ ''pixel_5'' @ [CHR 0x22]"

definition pixel5_catalog :: "device list" where
  "pixel5_catalog = [\<lparr>dev_id = ''23'', dev_name = Some ([CHR 0x22] @ ''pixel_5'' @ [CHR 0x22])\<rparr>]"

definition prints_pixel5_listing :: system where
  "prints_pixel5_listing cmd = Inr \<lparr>returncode = 0, stdout = pixel5_listing\<rparr>"

definition one_device_output :: string where
  "one_device_output =
     ''List of devices attached'' @ [LF] @ ''emulator-5554'' @ [CHR 0x09] @ ''device'' @ [LF, LF]"

definition adb_one_device :: system where
  "adb_one_device cmd = Inr \<lparr>returncode = 0, stdout = one_device_output\<rparr>"

definition adb_tools :: "string \<rightharpoonup> string" where
  "adb_tools = [''adb'' \<mapsto> ''adb'']"

subsection \<open>Catalog texts\<close>

definition render_pairs :: "(string \<times> string) list \<Rightarrow> string" where
  \<comment> \<open>The catalog text of the pairs: for each pair a line \<open>id:\<close> and a line \<open>name:\<close>.\<close>
  "render_pairs ps = concat (map (\<lambda>(i, n). ''id:'' @ i @ [LF] @ ''name:'' @ n @ [LF]) ps)"

definition pair_lines :: "(string \<times> string) list \<Rightarrow> string list" where
  "pair_lines ps = concat (map (\<lambda>(i, n). [''id:'' @ i, ''name:'' @ n]) ps)"

definition pair_record :: "string \<times> string \<Rightarrow> device" where
  "pair_record p = \<lparr>dev_id = strip (fst p), dev_name = Some (strip (snd p))\<rparr>"

definition well_formed_pair :: "string \<times> string \<Rightarrow> bool" where
  \<comment> \<open>Each of the two texts stays on its line.\<close>
  "well_formed_pair p = (\<not> list_ex is_linebreak (fst p) \<and> \<not> list_ex is_linebreak (snd p))"

definition bare_id_line :: "string \<Rightarrow> bool" where
  \<comment> \<open>The line is \<open>id:\<close> with nothing but whitespace around it.\<close>
  "bare_id_line l = (strip l = ''id:'')"

section \<open>Device selectors: proofs\<close>

lemmas str_defs = strip_def lstrip_def rstrip_def isspace_def is_linebreak_def LF_def CR_def
  splitlines_def after_colon_def lower_def lower_char_def is_upper_def

lemma lower_keywords:
  "lower ''galaxy'' = ''galaxy''" "lower ''samsung'' = ''samsung''"
  "lower ''large'' = ''large''" "lower ''xlarge'' = ''xlarge''"
  "lower ''pixel'' = ''pixel''" "lower ''pixel_6'' = ''pixel_6''" "lower ''pixel_3'' = ''pixel_3''"
  by (simp_all add: lower_def lower_char_def is_upper_def)

lemma find_None_list_ex: "(find P xs = None) = (\<not> list_ex P xs)"
  by (induction xs) simp_all

lemma find_no_match: "\<not> list_ex P xs \<Longrightarrow> find P xs = None"
  by (simp add: find_None_list_ex)

lemma samsung_scan_find:
  "samsung_scan ds = map_option dev_id (find samsung_keyword_match ds)"
  by (induction ds)
     (simp_all add: samsung_keyword_match_def samsung_keywords_def icontains_def lower_keywords)

lemma pixel_select_find:
  "pixel_select ds = map_option dev_id (find pixel_match ds)"
  by (induction ds)
     (simp_all add: pixel_match_def icontains_def lower_keywords get_id_def)

lemma fallback_scan_find:
  "fallback_scan f p ds =
     (case find (fallback_match f) ds of None \<Rightarrow> p | Some d \<Rightarrow> Some (dev_id d))"
  by (induction ds) (simp_all add: fallback_match_def icontains_def get_id_def)

lemma fallback_loop_first:
  assumes "\<not> truthy p"
    and "list_all (\<lambda>g. \<not> list_ex (fallback_match g) ds) earlier"
    and "find (fallback_match f) ds = Some d"
    and "dev_id d \<noteq> []"
  shows "fallback_loop (earlier @ f # later) p ds = Some (dev_id d)"
  using assms
  by (induction earlier) (simp_all add: fallback_scan_find find_no_match truthy_def)

lemma fallback_loop_none:
  "list_all (\<lambda>g. \<not> list_ex (fallback_match g) ds) fs \<Longrightarrow> \<not> truthy p
   \<Longrightarrow> fallback_loop fs p ds = p"
  by (induction fs) (simp_all add: fallback_scan_find find_no_match)

lemma any_fallback_swap:
  "(\<not> list_ex any_fallback_match ds) =
   list_all (\<lambda>g. \<not> list_ex (fallback_match g) ds) samsung_fallbacks"
  by (auto simp: any_fallback_match_def list_ex_iff list_all_iff)

lemma samsung_select_none:
  assumes "\<not> list_ex samsung_keyword_match devices" and "\<not> list_ex any_fallback_match devices"
  shows "samsung_select devices = None"
proof -
  have "samsung_scan devices = None"
    using assms(1) by (simp add: samsung_scan_find find_None_list_ex)
  moreover have "fallback_loop samsung_fallbacks None devices = None"
    using assms(2) by (intro fallback_loop_none) (simp_all add: any_fallback_swap truthy_def)
  ultimately show ?thesis by (simp add: samsung_select_def truthy_def)
qed

text \<open>
  C3, as stated, fails: a record whose name has a keyword but whose identifier is empty
  (the parser produces one from a bare \<open>id:\<close> line) leaves \<open>preferred\<close> false, and the
  fallback strings then pick a later record.
\<close>

theorem samsung_keyword_empty_id_counterexample:
  "parse_device_list empty_id_listing = empty_id_catalog
   \<and> find samsung_keyword_match empty_id_catalog = Some \<lparr>dev_id = [], dev_name = Some ''Galaxy S''\<rparr>
   \<and> samsung_select empty_id_catalog = Some ''7''"
  by (simp add: empty_id_listing_def empty_id_catalog_def parse_device_list_def
        samsung_keyword_match_def samsung_keywords_def icontains_def get_name_def get_id_def
        samsung_select_def samsung_fallbacks_def truthy_def str_defs)

text \<open>
  C3 (amended): for every catalog that contains a record whose name contains one of the
  keywords "galaxy", "samsung", "large", "xlarge" in any case, and whose first such record
  has a non-empty identifier, the Samsung selector returns the identifier of that first
  record.
\<close>

theorem samsung_keyword_first:
  assumes "find samsung_keyword_match devices = Some d" and "dev_id d \<noteq> []"
  shows "samsung_select devices = Some (dev_id d)"
  using assms by (simp add: samsung_select_def samsung_scan_find truthy_def)

theorem samsung_keyword_first_witness:
  "find samsung_keyword_match galaxy_second_catalog = Some \<lparr>dev_id = ''5'', dev_name = Some ''GALAXY Nexus''\<rparr>
   \<and> samsung_select galaxy_second_catalog = Some ''5''"
proof -
  have m: "find samsung_keyword_match galaxy_second_catalog
             = Some \<lparr>dev_id = ''5'', dev_name = Some ''GALAXY Nexus''\<rparr>"
    by (simp add: galaxy_second_catalog_def samsung_keyword_match_def samsung_keywords_def
          icontains_def get_name_def str_defs)
  show ?thesis
    using m samsung_keyword_first [OF m] by simp
qed

text \<open>
  C1, as stated, fails: the fallback strings are tried one after the other, each against the
  whole catalog, so a record matching "pixel_6" wins over an earlier record matching
  "Nexus 6".
\<close>

theorem samsung_fallback_catalog_order_counterexample:
  "\<not> list_ex samsung_keyword_match nexus_first_catalog
   \<and> find any_fallback_match nexus_first_catalog = Some \<lparr>dev_id = ''9'', dev_name = Some ''Nexus 6''\<rparr>
   \<and> samsung_select nexus_first_catalog = Some ''30''"
  by (simp add: nexus_first_catalog_def samsung_keyword_match_def samsung_keywords_def
        any_fallback_match_def fallback_match_def icontains_def get_name_def get_id_def
        samsung_select_def samsung_fallbacks_def truthy_def str_defs)

text \<open>
  C1 (amended): if no record's name contains a Samsung keyword, the selector tries the
  fallback strings in the order "pixel_6", "pixel_5", "Nexus 6", "Nexus 5X": for the first
  of them that matches any record (no earlier fallback string matching any), it returns the
  identifier of the first catalog entry, in catalog order, whose name or identifier contains
  that string in any case, provided this identifier is non-empty.
\<close>

theorem samsung_fallback_priority:
  assumes "\<not> list_ex samsung_keyword_match devices"
    and "samsung_fallbacks = earlier @ f # later"
    and "list_all (\<lambda>g. \<not> list_ex (fallback_match g) devices) earlier"
    and "find (fallback_match f) devices = Some d"
    and "dev_id d \<noteq> []"
  shows "samsung_select devices = Some (dev_id d)"
proof -
  have "samsung_scan devices = None"
    using assms(1) by (simp add: samsung_scan_find find_None_list_ex)
  moreover have "fallback_loop (earlier @ f # later) None devices = Some (dev_id d)"
    using assms(3-5) by (intro fallback_loop_first) (simp_all add: truthy_def)
  ultimately show ?thesis
    using assms(2) by (simp add: samsung_select_def truthy_def)
qed

theorem samsung_fallback_priority_witness:
  "\<not> list_ex samsung_keyword_match nexus_pixel5_catalog
   \<and> \<not> list_ex (fallback_match ''pixel_6'') nexus_pixel5_catalog
   \<and> find (fallback_match ''pixel_5'') nexus_pixel5_catalog = Some \<lparr>dev_id = ''23'', dev_name = Some ''pixel_5''\<rparr>
   \<and> samsung_select nexus_pixel5_catalog = Some ''23''"
proof -
  have k: "\<not> list_ex samsung_keyword_match nexus_pixel5_catalog"
    by (simp add: nexus_pixel5_catalog_def samsung_keyword_match_def samsung_keywords_def
          icontains_def get_name_def str_defs)
  have s: "samsung_fallbacks = [''pixel_6''] @ ''pixel_5'' # [''Nexus 6'', ''Nexus 5X'']"
    by (simp add: samsung_fallbacks_def)
  have e: "\<not> list_ex (fallback_match ''pixel_6'') nexus_pixel5_catalog"
    by (simp add: nexus_pixel5_catalog_def fallback_match_def icontains_def get_name_def str_defs)
  have e': "list_all (\<lambda>g. \<not> list_ex (fallback_match g) nexus_pixel5_catalog) [''pixel_6'']"
    using e by simp
  have m: "find (fallback_match ''pixel_5'') nexus_pixel5_catalog
             = Some \<lparr>dev_id = ''23'', dev_name = Some ''pixel_5''\<rparr>"
    by (simp add: nexus_pixel5_catalog_def fallback_match_def icontains_def get_name_def str_defs)
  show ?thesis
    using k e m samsung_fallback_priority [OF k s e' m] by simp
qed

section \<open>AVD provisioner: proofs\<close>

lemmas io_defs = bind_def ret_def raise_def try_except_def emit_def print_def input_def
  subprocess_run_def run_def

lemma spawns_append [simp]: "spawns (xs @ ys) = spawns xs @ spawns ys"
  by (simp add: spawns_def)

lemma spawns_simps [simp]:
  "spawns [] = []"
  "spawns (Spawn cmd # evs) = cmd # spawns evs"
  "spawns (Print s # evs) = spawns evs"
  "spawns (PrintExc e # evs) = spawns evs"
  "spawns (Prompt s # evs) = spawns evs"
  by (simp_all add: spawns_def)

lemma bind_Inr: "m w = (Inr x, w') \<Longrightarrow> bind m f w = f x w'"
  by (simp add: bind_def)

lemma launch_Inl: "launch sys cmd capture = Inl e \<Longrightarrow> e = ValueError \<or> e = OSError"
  by (auto simp: launch_def split: if_splits sum.splits failure.splits)

lemma run_result:
  "run sys cmd w =
     ((case launch sys cmd False of
         Inl e \<Rightarrow> Inl e
       | Inr res \<Rightarrow>
           if returncode res \<noteq> 0 then Inl (CalledProcessError cmd (returncode res)) else Inr res),
      w\<lparr>trace := trace w @ [Print (''+ '' @ join '' '' cmd), Spawn cmd]\<rparr>)"
  by (simp add: io_defs split: sum.splits)

lemma ensure_system_image_absent:
  "\<not> truthy sdk \<Longrightarrow>
   ensure_system_image sys sdk api tag abi w =
     (Inr (), w\<lparr>trace := trace w @
        [Print ''sdkmanager not found; cannot install system images automatically.'']\<rparr>)"
  by (simp add: ensure_system_image_def truthy_def print_def emit_def split: option.splits)

lemma ensure_system_image_started:
  assumes "p \<noteq> []" and "launch sys [p, system_image_pkg api tag abi] False = Inr res"
  shows "ensure_system_image sys (Some p) api tag abi w =
     (Inr (), w\<lparr>trace := trace w @
        [Print (''Ensuring system image package is installed: '' @ system_image_pkg api tag abi),
         Print (''+ '' @ p @ '' '' @ system_image_pkg api tag abi),
         Spawn [p, system_image_pkg api tag abi] ]
        @ (if returncode res \<noteq> 0
           then [Print ''sdkmanager failed. You may need to run the command manually with correct SDK tools installed.'',
                 PrintExc (CalledProcessError [p, system_image_pkg api tag abi] (returncode res))]
           else [])\<rparr>)"
  using assms
  by (simp add: ensure_system_image_def run_result bind_def ret_def try_except_def print_def
        emit_def Let_def)

lemma ensure_system_image_not_started:
  assumes "p \<noteq> []" and "launch sys [p, system_image_pkg api tag abi] False = Inl e"
  shows "ensure_system_image sys (Some p) api tag abi w =
     (Inl e, w\<lparr>trace := trace w @
        [Print (''Ensuring system image package is installed: '' @ system_image_pkg api tag abi),
         Print (''+ '' @ p @ '' '' @ system_image_pkg api tag abi),
         Spawn [p, system_image_pkg api tag abi] ]\<rparr>)"
  using assms launch_Inl [OF assms(2)]
  by (auto simp: ensure_system_image_def run_result bind_def ret_def try_except_def print_def
        emit_def Let_def)

lemma create_step_spawns:
  "spawns (trace (snd (
      (case avd of
         None \<Rightarrow> print m1
       | Some p \<Rightarrow>
           if p = [] then print m1
           else bind (print m2)
                  (\<lambda>_. try_except (bind (run sys (cmd p)) (\<lambda>_. print m3))
                          (\<lambda>e. case e of CalledProcessError c rc \<Rightarrow> Some (print m4) | _ \<Rightarrow> None))) w))) =
   spawns (trace w) @ (case avd of None \<Rightarrow> [] | Some p \<Rightarrow> if p = [] then [] else [cmd p])"
proof (cases avd)
  case None
  then show ?thesis by (simp add: print_def emit_def)
next
  case (Some p)
  show ?thesis
  proof (cases "launch sys (cmd p) False")
    case (Inl e)
    then show ?thesis
      using Some launch_Inl [OF Inl]
      by (auto simp: run_result bind_def try_except_def print_def emit_def)
  next
    case (Inr res)
    then show ?thesis
      using Some by (simp add: run_result bind_def try_except_def print_def emit_def)
  qed
qed

lemma create_avd_spawns:
  assumes "truthy sdk \<longrightarrow>
             launch sys [the sdk, system_image_pkg api DEFAULT_TAG DEFAULT_ABI] False = Inr res"
  shows "spawns (trace (snd (create_avd sys avd sdk name prof api w))) =
     spawns (trace w)
     @ (if truthy sdk then [ [the sdk, system_image_pkg api DEFAULT_TAG DEFAULT_ABI] ] else [])
     @ (case avd of None \<Rightarrow> [] | Some p \<Rightarrow>
          if p = [] then []
          else [avd_create_cmd p name (system_image_pkg api DEFAULT_TAG DEFAULT_ABI) prof])"
proof (cases "truthy sdk")
  case False
  show ?thesis
    unfolding create_avd_def Let_def
    by (subst bind_Inr [OF ensure_system_image_absent [OF False]])
      (simp add: create_step_spawns False)
next
  case True
  then obtain p where p: "sdk = Some p" "p \<noteq> []"
    by (auto simp: truthy_def split: option.splits)
  have l: "launch sys [p, system_image_pkg api DEFAULT_TAG DEFAULT_ABI] False = Inr res"
    using assms True p by simp
  show ?thesis
    unfolding create_avd_def Let_def p(1)
    by (subst bind_Inr [OF ensure_system_image_started [OF p(2) l]])
      (simp add: create_step_spawns truthy_def p(2))
qed

lemma create_avd_failure_logged:
  assumes "p \<noteq> []"
    and "launch sys [p, system_image_pkg api DEFAULT_TAG DEFAULT_ABI] False = Inr res"
    and "returncode res \<noteq> 0"
  shows "Print ''sdkmanager failed. You may need to run the command manually with correct SDK tools installed.''
           \<in> set (trace (snd (create_avd sys avd (Some p) name prof api w)))"
proof -
  define w1 where "w1 = snd (ensure_system_image sys (Some p) api DEFAULT_TAG DEFAULT_ABI w)"
  have e: "ensure_system_image sys (Some p) api DEFAULT_TAG DEFAULT_ABI w = (Inr (), w1)"
    and m: "Print ''sdkmanager failed. You may need to run the command manually with correct SDK tools installed.''
              \<in> set (trace w1)"
    using assms(3) by (simp_all add: w1_def ensure_system_image_started [OF assms(1,2)])
  have "\<exists>evs. trace (snd (create_avd sys avd (Some p) name prof api w)) = trace w1 @ evs"
  proof (cases "truthy avd")
    case False
    then show ?thesis
      by (auto simp: create_avd_def bind_def e Let_def truthy_def print_def emit_def
            split: option.splits)
  next
    case True
    then obtain q where q: "avd = Some q" "q \<noteq> []"
      by (auto simp: truthy_def split: option.splits)
    show ?thesis
    proof (cases "launch sys (avd_create_cmd q name (system_image_pkg api DEFAULT_TAG DEFAULT_ABI) prof) False")
      case (Inl x)
      then show ?thesis
        using q launch_Inl [OF Inl]
        by (auto simp: create_avd_def bind_def e Let_def run_result try_except_def print_def emit_def)
    next
      case (Inr r)
      then show ?thesis
        using q
        by (simp add: create_avd_def bind_def e Let_def run_result try_except_def print_def emit_def)
    qed
  qed
  then show ?thesis using m by auto
qed

lemma list_avd_devices_result:
  "list_avd_devices sys avd w =
     (Inr (case avd of
             None \<Rightarrow> []
           | Some p \<Rightarrow>
               if p = [] then []
               else case launch sys [p, ''list'', ''device''] True of
                      Inl e \<Rightarrow> []
                    | Inr res \<Rightarrow>
                        if returncode res \<noteq> 0 then [] else parse_device_list (stdout res)),
      w\<lparr>trace := trace w @
         (case avd of None \<Rightarrow> [] | Some p \<Rightarrow> if p = [] then [] else [Spawn [p, ''list'', ''device''] ])\<rparr>)"
  by (simp add: list_avd_devices_def io_defs split: option.splits sum.splits)

lemma pkg_31:
  "system_image_pkg DEFAULT_API_LEVEL DEFAULT_TAG DEFAULT_ABI
     = ''system-images;android-31;google_apis;x86_64''"
  by (simp add: system_image_pkg_def DEFAULT_API_LEVEL_def DEFAULT_TAG_def DEFAULT_ABI_def)

lemma then_print_spawns:
  "spawns (trace (snd (bind m (\<lambda>_. print msg) w))) = spawns (trace (snd (m w)))"
  by (simp add: bind_def print_def emit_def split: prod.splits sum.splits)

lemma provision_spawns:
  assumes "list_avd_devices sys avd w = (Inr devices, w')"
  shows "spawns (trace (snd (bind (list_avd_devices sys avd)
            (\<lambda>devices. bind (create_avd sys avd sdk name (sel devices) api) (\<lambda>_. print msg)) w))) =
         spawns (trace (snd (create_avd sys avd sdk name (sel devices) api w')))"
proof -
  have "bind (list_avd_devices sys avd)
            (\<lambda>devices. bind (create_avd sys avd sdk name (sel devices) api) (\<lambda>_. print msg)) w
        = bind (create_avd sys avd sdk name (sel devices) api) (\<lambda>_. print msg) w'"
    using assms by (simp add: bind_def)
  then show ?thesis
    by (simp add: then_print_spawns)
qed

text \<open>
  C9, as stated, fails: the provisioner does not always perform both steps. Without an
  sdkmanager path no installation is attempted, and without an avdmanager path no creation
  command is run. And an installation that cannot be started is fatal: the OSError is not
  a CalledProcessError, so it leaves \<open>create_avd\<close> before the creation step.
\<close>

theorem create_avd_missing_tool_counterexample:
  "spawns (trace (snd (create_avd tools_succeed (Some ''avdmanager'') None ''A'' None ''31'' world0)))
     = [ [''avdmanager'', ''create'', ''avd'', ''--name'', ''A'', ''--package'',
         ''system-images;android-31;google_apis;x86_64'', ''--force''] ]
   \<and> spawns (trace (snd (create_avd tools_succeed None (Some ''sdkmanager'') ''A'' None ''31'' world0)))
     = [ [''sdkmanager'', ''system-images;android-31;google_apis;x86_64''] ]
   \<and> create_avd sdkmanager_not_executable (Some ''avdmanager'') (Some ''sdkmanager'') ''A'' None ''31'' world0
     = (Inl OSError,
        \<lparr>stdin = [],
          trace = [Print ''Ensuring system image package is installed: system-images;android-31;google_apis;x86_64'',
                   Print ''+ sdkmanager system-images;android-31;google_apis;x86_64'',
                   Spawn [''sdkmanager'', ''system-images;android-31;google_apis;x86_64''] ]\<rparr>)"
proof (intro conjI)
  have n: "truthy None \<longrightarrow>
           launch tools_succeed [the None, system_image_pkg ''31'' DEFAULT_TAG DEFAULT_ABI] False
             = Inr \<lparr>returncode = 0, stdout = []\<rparr>"
    by (simp add: truthy_def)
  show "spawns (trace (snd (create_avd tools_succeed (Some ''avdmanager'') None ''A'' None ''31'' world0)))
     = [ [''avdmanager'', ''create'', ''avd'', ''--name'', ''A'', ''--package'',
         ''system-images;android-31;google_apis;x86_64'', ''--force''] ]"
    using create_avd_spawns [OF n, of "Some ''avdmanager''" "''A''" None world0]
    by (simp add: truthy_def avd_create_cmd_def system_image_pkg_def DEFAULT_TAG_def
          DEFAULT_ABI_def world0_def)
  have s: "truthy (Some ''sdkmanager'') \<longrightarrow>
           launch tools_succeed [the (Some ''sdkmanager''), system_image_pkg ''31'' DEFAULT_TAG DEFAULT_ABI] False
             = Inr \<lparr>returncode = 0, stdout = []\<rparr>"
    by (simp add: launch_def has_nul_def tools_succeed_def system_image_pkg_def DEFAULT_TAG_def
          DEFAULT_ABI_def)
  show "spawns (trace (snd (create_avd tools_succeed None (Some ''sdkmanager'') ''A'' None ''31'' world0)))
     = [ [''sdkmanager'', ''system-images;android-31;google_apis;x86_64''] ]"
    using create_avd_spawns [OF s, of None "''A''" None world0]
    by (simp add: truthy_def system_image_pkg_def DEFAULT_TAG_def DEFAULT_ABI_def world0_def)
  have l: "launch sdkmanager_not_executable
             [''sdkmanager'', system_image_pkg ''31'' DEFAULT_TAG DEFAULT_ABI] False = Inl OSError"
    by (simp add: launch_def has_nul_def sdkmanager_not_executable_def system_image_pkg_def
          DEFAULT_TAG_def DEFAULT_ABI_def)
  have e: "''sdkmanager'' \<noteq> []" by simp
  show "create_avd sdkmanager_not_executable (Some ''avdmanager'') (Some ''sdkmanager'') ''A'' None ''31'' world0
     = (Inl OSError,
        \<lparr>stdin = [],
          trace = [Print ''Ensuring system image package is installed: system-images;android-31;google_apis;x86_64'',
                   Print ''+ sdkmanager system-images;android-31;google_apis;x86_64'',
                   Spawn [''sdkmanager'', ''system-images;android-31;google_apis;x86_64''] ]\<rparr>)"
    using ensure_system_image_not_started [OF e l, of world0]
    by (simp add: create_avd_def bind_def)
      (simp add: system_image_pkg_def DEFAULT_TAG_def DEFAULT_ABI_def world0_def)
qed

text \<open>
  C9 (amended): when an sdkmanager path is present and the installation command can be
  started, the provisioner first attempts to install the package
  \<open>system-images;android-{api};google_apis;x86_64\<close>, and a non-zero exit of that
  installation is logged but not fatal; afterwards, when an avdmanager path is present, the
  creation step is attempted, its command always with \<open>--force\<close>, and with
  \<open>--device <profile>\<close> appended only when a non-empty profile is given. Without an
  sdkmanager path the installation step is skipped and the creation step is attempted all
  the same; without an avdmanager path no creation command is run.
\<close>

theorem create_avd_two_steps:
  assumes "truthy sdk \<longrightarrow>
             launch sys [the sdk, ''system-images;android-'' @ api @ '';google_apis;x86_64''] False
               = Inr res"
  shows "spawns (trace (snd (create_avd sys avd sdk name prof api w))) =
       spawns (trace w)
       @ (if truthy sdk then [ [the sdk, ''system-images;android-'' @ api @ '';google_apis;x86_64''] ] else [])
       @ (if truthy avd
          then [ [the avd, ''create'', ''avd'', ''--name'', name, ''--package'',
                 ''system-images;android-'' @ api @ '';google_apis;x86_64'', ''--force'']
                @ (if truthy prof then [''--device'', the prof] else []) ]
          else [])
   \<and> (truthy sdk \<and> returncode res \<noteq> 0
        \<longrightarrow> Print ''sdkmanager failed. You may need to run the command manually with correct SDK tools installed.''
              \<in> set (trace (snd (create_avd sys avd sdk name prof api w))))"
proof (intro conjI impI)
  have p: "system_image_pkg api DEFAULT_TAG DEFAULT_ABI
             = ''system-images;android-'' @ api @ '';google_apis;x86_64''"
    by (simp add: system_image_pkg_def DEFAULT_TAG_def DEFAULT_ABI_def)
  have a: "truthy sdk \<longrightarrow>
             launch sys [the sdk, system_image_pkg api DEFAULT_TAG DEFAULT_ABI] False = Inr res"
    using assms by (simp add: p)
  show "spawns (trace (snd (create_avd sys avd sdk name prof api w))) =
       spawns (trace w)
       @ (if truthy sdk then [ [the sdk, ''system-images;android-'' @ api @ '';google_apis;x86_64''] ] else [])
       @ (if truthy avd
          then [ [the avd, ''create'', ''avd'', ''--name'', name, ''--package'',
                 ''system-images;android-'' @ api @ '';google_apis;x86_64'', ''--force'']
                @ (if truthy prof then [''--device'', the prof] else []) ]
          else [])"
    unfolding create_avd_spawns [OF a]
    by (simp add: p truthy_def avd_create_cmd_def split: option.splits)
  assume f: "truthy sdk \<and> returncode res \<noteq> 0"
  then obtain s where s: "sdk = Some s" "s \<noteq> []"
    by (auto simp: truthy_def split: option.splits)
  have l: "launch sys [s, system_image_pkg api DEFAULT_TAG DEFAULT_ABI] False = Inr res"
    using a f s by simp
  have r: "returncode res \<noteq> 0"
    using f by simp
  show "Print ''sdkmanager failed. You may need to run the command manually with correct SDK tools installed.''
              \<in> set (trace (snd (create_avd sys avd sdk name prof api w)))"
    unfolding s(1) by (rule create_avd_failure_logged [OF s(2) l r])
qed

theorem create_avd_two_steps_witness:
  "launch sdkmanager_fails [''sdkmanager'', ''system-images;android-31;google_apis;x86_64''] False
     = Inr \<lparr>returncode = 1, stdout = []\<rparr>
   \<and> spawns (trace (snd (create_avd sdkmanager_fails (Some ''avdmanager'') (Some ''sdkmanager'') ''A'' (Some ''23'') ''31'' world0)))
       = [ [''sdkmanager'', ''system-images;android-31;google_apis;x86_64''],
          [''avdmanager'', ''create'', ''avd'', ''--name'', ''A'', ''--package'',
           ''system-images;android-31;google_apis;x86_64'', ''--force'', ''--device'', ''23''] ]
   \<and> Print ''sdkmanager failed. You may need to run the command manually with correct SDK tools installed.''
        \<in> set (trace (snd (create_avd sdkmanager_fails (Some ''avdmanager'') (Some ''sdkmanager'') ''A'' (Some ''23'') ''31'' world0)))"
proof -
  have l: "launch sdkmanager_fails [''sdkmanager'', ''system-images;android-31;google_apis;x86_64''] False
             = Inr \<lparr>returncode = 1, stdout = []\<rparr>"
    by (simp add: launch_def has_nul_def sdkmanager_fails_def)
  have a: "truthy (Some ''sdkmanager'') \<longrightarrow>
             launch sdkmanager_fails
               [the (Some ''sdkmanager''), ''system-images;android-'' @ ''31'' @ '';google_apis;x86_64''] False
               = Inr \<lparr>returncode = 1, stdout = []\<rparr>"
    using l by simp
  show ?thesis
    using l create_avd_two_steps [OF a, of "Some ''avdmanager''" "''A''" "Some ''23''" world0]
    by (simp add: truthy_def world0_def)
qed

text \<open>
  C5, as stated, fails: the creation command is not always constructed. Without an
  avdmanager path the catalog is empty, nothing matches, and the operation runs no command
  at all; and when the installation cannot be started, its OSError ends the operation
  before the creation command.
\<close>

theorem samsung_no_match_no_command_counterexample:
  "list_avd_devices tools_succeed (Map.empty ''avdmanager'') world0 = (Inr [], world0)
   \<and> samsung_select [] = None
   \<and> spawns (trace (snd (create_samsung_device Map.empty tools_succeed world0))) = []
   \<and> list_avd_devices sdkmanager_not_executable (two_tools ''avdmanager'') world0
       = (Inr [], \<lparr>stdin = [], trace = [Spawn [''avdmanager'', ''list'', ''device''] ]\<rparr>)
   \<and> fst (create_samsung_device two_tools sdkmanager_not_executable world0) = Inl OSError
   \<and> spawns (trace (snd (create_samsung_device two_tools sdkmanager_not_executable world0)))
       = [ [''avdmanager'', ''list'', ''device''],
          [''sdkmanager'', ''system-images;android-31;google_apis;x86_64''] ]"
proof -
  have l0: "list_avd_devices tools_succeed (Map.empty ''avdmanager'') world0 = (Inr [], world0)"
    by (simp add: list_avd_devices_result world0_def)
  have s0: "samsung_select [] = None"
    by (simp add: samsung_select_def samsung_fallbacks_def truthy_def)
  have c0: "create_samsung_device Map.empty tools_succeed world0 =
      (Inr (), \<lparr>stdin = [],
                trace = [Print ''sdkmanager not found; cannot install system images automatically.'',
                         Print ''avdmanager not found. Install Android command-line tools and ensure avdmanager is on PATH.'',
                         Print ''You can start the emulator with option to run headless or with window.'']\<rparr>)"
    using l0
    by (simp add: create_samsung_device_def bind_def s0 create_avd_def
          ensure_system_image_def print_def emit_def world0_def)
  have p: "parse_device_list [] = []"
    by (simp add: parse_device_list_def splitlines_def)
  have l1: "list_avd_devices sdkmanager_not_executable (two_tools ''avdmanager'') world0
       = (Inr [], \<lparr>stdin = [], trace = [Spawn [''avdmanager'', ''list'', ''device''] ]\<rparr>)"
    by (simp add: list_avd_devices_result two_tools_def world0_def launch_def has_nul_def
          sdkmanager_not_executable_def p)
  have n: "launch sdkmanager_not_executable
             [''sdkmanager'', system_image_pkg DEFAULT_API_LEVEL DEFAULT_TAG DEFAULT_ABI] False = Inl OSError"
    by (simp add: launch_def has_nul_def sdkmanager_not_executable_def pkg_31)
  have e: "''sdkmanager'' \<noteq> []" by simp
  have c1: "create_samsung_device two_tools sdkmanager_not_executable world0 =
      (Inl OSError,
       \<lparr>stdin = [],
         trace = [Spawn [''avdmanager'', ''list'', ''device''],
                  Print ''Ensuring system image package is installed: system-images;android-31;google_apis;x86_64'',
                  Print ''+ sdkmanager system-images;android-31;google_apis;x86_64'',
                  Spawn [''sdkmanager'', ''system-images;android-31;google_apis;x86_64''] ]\<rparr>)"
    using l1
    by (simp add: create_samsung_device_def bind_def s0 create_avd_def two_tools_def
          ensure_system_image_not_started [OF e n] pkg_31)
  show ?thesis
    using l0 s0 c0 l1 c1 by simp
qed

text \<open>
  C5 (amended): for every catalog in which no record matches a Samsung keyword and no
  record matches a fallback string, the Samsung selector returns an absent profile; and
  when an avdmanager path is present and the installation step raises nothing (there is no
  sdkmanager path, or its command can be started), the creation command is constructed
  without any \<open>--device\<close> argument: it ends in \<open>--force\<close>.
\<close>

theorem samsung_no_match_no_device:
  assumes "list_avd_devices sys (found_tools ''avdmanager'') w = (Inr devices, w')"
    and "\<not> list_ex samsung_keyword_match devices"
    and "\<not> list_ex any_fallback_match devices"
    and "found_tools ''avdmanager'' = Some avd" and "avd \<noteq> []"
    and "truthy (found_tools ''sdkmanager'') \<longrightarrow>
           launch sys [the (found_tools ''sdkmanager''),
                       ''system-images;android-31;google_apis;x86_64''] False = Inr res"
  shows "samsung_select devices = None
    \<and> spawns (trace (snd (create_samsung_device found_tools sys w))) =
        spawns (trace w')
        @ (if truthy (found_tools ''sdkmanager'')
           then [ [the (found_tools ''sdkmanager''), ''system-images;android-31;google_apis;x86_64''] ]
           else [])
        @ [ [avd, ''create'', ''avd'', ''--name'', ''Samsung_Device_AVD'', ''--package'',
            ''system-images;android-31;google_apis;x86_64'', ''--force''] ]"
proof
  show none: "samsung_select devices = None"
    using assms(2,3) by (rule samsung_select_none)
  have a: "truthy (found_tools ''sdkmanager'') \<longrightarrow>
           launch sys [the (found_tools ''sdkmanager''),
                       system_image_pkg DEFAULT_API_LEVEL DEFAULT_TAG DEFAULT_ABI] False = Inr res"
    using assms(6) by (simp add: pkg_31)
  have "spawns (trace (snd (create_samsung_device found_tools sys w))) =
        spawns (trace (snd (create_avd sys (found_tools ''avdmanager'') (found_tools ''sdkmanager'')
                  ''Samsung_Device_AVD'' (samsung_select devices) DEFAULT_API_LEVEL w')))"
    unfolding create_samsung_device_def Let_def by (rule provision_spawns [OF assms(1)])
  then show "spawns (trace (snd (create_samsung_device found_tools sys w))) =
        spawns (trace w')
        @ (if truthy (found_tools ''sdkmanager'')
           then [ [the (found_tools ''sdkmanager''), ''system-images;android-31;google_apis;x86_64''] ]
           else [])
        @ [ [avd, ''create'', ''avd'', ''--name'', ''Samsung_Device_AVD'', ''--package'',
            ''system-images;android-31;google_apis;x86_64'', ''--force''] ]"
    using assms(4,5)
    by (simp add: none create_avd_spawns [OF a] pkg_31 avd_create_cmd_def)
qed

lemma plain_parse:
  "parse_device_list plain_listing = [\<lparr>dev_id = ''1'', dev_name = Some ''Small Phone''\<rparr>]"
  by (simp add: plain_listing_def parse_device_list_def str_defs)

theorem samsung_no_match_no_device_witness:
  "\<not> list_ex samsung_keyword_match [\<lparr>dev_id = ''1'', dev_name = Some ''Small Phone''\<rparr>]
   \<and> \<not> list_ex any_fallback_match [\<lparr>dev_id = ''1'', dev_name = Some ''Small Phone''\<rparr>]
   \<and> samsung_select [\<lparr>dev_id = ''1'', dev_name = Some ''Small Phone''\<rparr>] = None
   \<and> spawns (trace (snd (create_samsung_device two_tools prints_plain_listing world0))) =
       [ [''avdmanager'', ''list'', ''device''],
        [''sdkmanager'', ''system-images;android-31;google_apis;x86_64''],
        [''avdmanager'', ''create'', ''avd'', ''--name'', ''Samsung_Device_AVD'', ''--package'',
         ''system-images;android-31;google_apis;x86_64'', ''--force''] ]"
proof -
  have l: "list_avd_devices prints_plain_listing (two_tools ''avdmanager'') world0
      = (Inr [\<lparr>dev_id = ''1'', dev_name = Some ''Small Phone''\<rparr>],
         \<lparr>stdin = [], trace = [Spawn [''avdmanager'', ''list'', ''device''] ]\<rparr>)"
    by (simp add: list_avd_devices_result two_tools_def world0_def plain_parse
          prints_plain_listing_def launch_def has_nul_def)
  have k: "\<not> list_ex samsung_keyword_match [\<lparr>dev_id = ''1'', dev_name = Some ''Small Phone''\<rparr>]"
    by (simp add: samsung_keyword_match_def samsung_keywords_def icontains_def get_name_def str_defs)
  have f: "\<not> list_ex any_fallback_match [\<lparr>dev_id = ''1'', dev_name = Some ''Small Phone''\<rparr>]"
    by (simp add: any_fallback_match_def samsung_fallbacks_def fallback_match_def icontains_def
          get_name_def str_defs)
  have t: "two_tools ''avdmanager'' = Some ''avdmanager''"
    by (simp add: two_tools_def)
  have e: "''avdmanager'' \<noteq> []" by simp
  have s: "truthy (two_tools ''sdkmanager'') \<longrightarrow>
           launch prints_plain_listing
             [the (two_tools ''sdkmanager''), ''system-images;android-31;google_apis;x86_64''] False
             = Inr \<lparr>returncode = 0, stdout = plain_listing\<rparr>"
    by (simp add: two_tools_def launch_def has_nul_def prints_plain_listing_def)
  show ?thesis
    using k f samsung_no_match_no_device [where found_tools = two_tools, OF l k f t e s]
    by (simp add: two_tools_def truthy_def)
qed

section \<open>Pixel selector: proofs\<close>

lemma pixel5_parse: "parse_device_list pixel5_listing = pixel5_catalog"
  by (simp add: pixel5_listing_def pixel5_catalog_def parse_device_list_def str_defs)

lemma pixel5_select: "pixel_select pixel5_catalog = Some ''23''"
  by (simp add: pixel5_catalog_def get_name_def get_id_def str_defs)

text \<open>
  C4: the Pixel selector returns the identifier of the first catalog record, in catalog
  order, whose name contains "pixel" or whose identifier contains "pixel_6" or "pixel_3",
  in any case. When \<open>avdmanager list device\<close> prints \<open>id: 23\<close> followed by
  \<open>name: "pixel_5"\<close>, the catalog has the one record 23, the selector returns "23", and the
  creation command, the last command run, ends in \<open>--device 23\<close>. The listing is what the
  started \<open>avdmanager list device\<close> prints; the installation step before the creation has
  no sdkmanager path or a command that can be started.
\<close>

theorem pixel_first_match:
  "(find pixel_match devices = Some d \<longrightarrow> pixel_select devices = Some (dev_id d))
   \<and> (found_tools ''avdmanager'' = Some avd \<and> avd \<noteq> []
        \<and> launch sys [avd, ''list'', ''device''] True = Inr \<lparr>returncode = 0, stdout = pixel5_listing\<rparr>
        \<and> (truthy (found_tools ''sdkmanager'') \<longrightarrow>
             launch sys [the (found_tools ''sdkmanager''),
                         ''system-images;android-31;google_apis;x86_64''] False = Inr res)
      \<longrightarrow> fst (list_avd_devices sys (Some avd) w) = Inr pixel5_catalog
          \<and> pixel_select pixel5_catalog = Some ''23''
          \<and> last (spawns (trace (snd (create_pixel_device found_tools sys w)))) =
              [avd, ''create'', ''avd'', ''--name'', ''Pixel_Device_AVD'', ''--package'',
               ''system-images;android-31;google_apis;x86_64'', ''--force'', ''--device'', ''23''])"
proof (intro conjI impI)
  assume "find pixel_match devices = Some d"
  then show "pixel_select devices = Some (dev_id d)"
    by (simp add: pixel_select_find)
next
  assume a: "found_tools ''avdmanager'' = Some avd \<and> avd \<noteq> []
        \<and> launch sys [avd, ''list'', ''device''] True = Inr \<lparr>returncode = 0, stdout = pixel5_listing\<rparr>
        \<and> (truthy (found_tools ''sdkmanager'') \<longrightarrow>
             launch sys [the (found_tools ''sdkmanager''),
                         ''system-images;android-31;google_apis;x86_64''] False = Inr res)"
  then show l: "fst (list_avd_devices sys (Some avd) w) = Inr pixel5_catalog"
    by (simp add: list_avd_devices_result pixel5_parse)
  show "pixel_select pixel5_catalog = Some ''23''"
    by (rule pixel5_select)
  have l': "list_avd_devices sys (found_tools ''avdmanager'') w
              = (Inr pixel5_catalog, snd (list_avd_devices sys (found_tools ''avdmanager'') w))"
    using a l by (metis prod.collapse)
  have i: "truthy (found_tools ''sdkmanager'') \<longrightarrow>
           launch sys [the (found_tools ''sdkmanager''),
                       system_image_pkg DEFAULT_API_LEVEL DEFAULT_TAG DEFAULT_ABI] False = Inr res"
    using a by (simp add: pkg_31)
  have "spawns (trace (snd (create_pixel_device found_tools sys w))) =
        spawns (trace (snd (create_avd sys (found_tools ''avdmanager'') (found_tools ''sdkmanager'')
                  ''Pixel_Device_AVD'' (pixel_select pixel5_catalog) DEFAULT_API_LEVEL
                  (snd (list_avd_devices sys (found_tools ''avdmanager'') w)))))"
    unfolding create_pixel_device_def Let_def by (rule provision_spawns [OF l'])
  then show "last (spawns (trace (snd (create_pixel_device found_tools sys w)))) =
              [avd, ''create'', ''avd'', ''--name'', ''Pixel_Device_AVD'', ''--package'',
               ''system-images;android-31;google_apis;x86_64'', ''--force'', ''--device'', ''23'']"
    using a by (simp add: pixel5_select create_avd_spawns [OF i] pkg_31 avd_create_cmd_def)
qed

theorem pixel_first_match_witness:
  "find pixel_match pixel5_catalog = Some \<lparr>dev_id = ''23'', dev_name = Some ([CHR 0x22] @ ''pixel_5'' @ [CHR 0x22])\<rparr>
   \<and> pixel_select pixel5_catalog = Some ''23''
   \<and> launch prints_pixel5_listing [''avdmanager'', ''list'', ''device''] True
       = Inr \<lparr>returncode = 0, stdout = pixel5_listing\<rparr>
   \<and> fst (list_avd_devices prints_pixel5_listing (Some ''avdmanager'') world0) = Inr pixel5_catalog
   \<and> last (spawns (trace (snd (create_pixel_device two_tools prints_pixel5_listing world0)))) =
        [''avdmanager'', ''create'', ''avd'', ''--name'', ''Pixel_Device_AVD'', ''--package'',
         ''system-images;android-31;google_apis;x86_64'', ''--force'', ''--device'', ''23'']"
proof -
  have m: "find pixel_match pixel5_catalog
             = Some \<lparr>dev_id = ''23'', dev_name = Some ([CHR 0x22] @ ''pixel_5'' @ [CHR 0x22])\<rparr>"
    by (simp add: pixel5_catalog_def pixel_match_def icontains_def get_name_def str_defs)
  have l: "launch prints_pixel5_listing [''avdmanager'', ''list'', ''device''] True
             = Inr \<lparr>returncode = 0, stdout = pixel5_listing\<rparr>"
    by (simp add: launch_def has_nul_def prints_pixel5_listing_def)
  have s: "launch prints_pixel5_listing
             [''sdkmanager'', ''system-images;android-31;google_apis;x86_64''] False
             = Inr \<lparr>returncode = 0, stdout = pixel5_listing\<rparr>"
    by (simp add: launch_def has_nul_def prints_pixel5_listing_def)
  show ?thesis
    using m l s pixel_first_match [of pixel5_catalog
        "\<lparr>dev_id = ''23'', dev_name = Some ([CHR 0x22] @ ''pixel_5'' @ [CHR 0x22])\<rparr>"
        two_tools "''avdmanager''" prints_pixel5_listing
        "\<lparr>returncode = 0, stdout = pixel5_listing\<rparr>" world0]
    by (simp add: two_tools_def truthy_def)
qed

section \<open>Connected devices and the system dump: proofs\<close>

lemmas int_defs = py_int_def int_unsigned_def INT_MAX_STR_DIGITS_def is_digit_def digit_val_def
  py_index_def

lemma one_device_parse: "parse_adb_devices one_device_output = [(''emulator-5554'', ''device'')]"
  by (simp add: one_device_output_def parse_adb_devices_def split_def str_defs)

lemma print_devices_result:
  "\<exists>evs. print_devices idx ds w = (Inr (), w\<lparr>trace := trace w @ evs\<rparr>) \<and> spawns evs = []"
proof (induction ds arbitrary: idx w)
  case Nil
  have "print_devices idx [] w = (Inr (), w\<lparr>trace := trace w @ []\<rparr>)"
    by (simp add: ret_def)
  then show ?case by (metis spawns_simps(1))
next
  case (Cons d ds)
  obtain serial state where d: "d = (serial, state)" by (cases d)
  let ?w1 = "w\<lparr>trace := trace w @ [Print (str_nat idx @ '') '' @ serial @ '' ('' @ state @ '')'')]\<rparr>"
  obtain evs where evs: "print_devices (Suc idx) ds ?w1 = (Inr (), ?w1\<lparr>trace := trace ?w1 @ evs\<rparr>)"
    "spawns evs = []"
    using Cons.IH by blast
  have "print_devices idx (d # ds) w
          = (Inr (), w\<lparr>trace := trace w @ (Print (str_nat idx @ '') '' @ serial @ '' ('' @ state @ '')'') # evs)\<rparr>)"
    using evs(1) by (simp add: d bind_def print_def emit_def)
  moreover have "spawns (Print (str_nat idx @ '') '' @ serial @ '' ('' @ state @ '')'') # evs) = []"
    using evs(2) by simp
  ultimately show ?case by blast
qed

text \<open>
  C8: when \<open>adb devices\<close> lists exactly one device and the user enters "2" (with or without
  surrounding blanks), the chooser raises nothing: it prints "Invalid choice." and returns
  an absent value; the dump operation then returns at once, having run no command but
  \<open>adb devices\<close>.
\<close>

theorem choose_index_two_of_one:
  assumes "adb \<noteq> []"
    and "launch sys [adb, ''devices''] True = Inr res"
    and "returncode res = 0"
    and "parse_adb_devices (stdout res) = [(serial, state)]"
    and "stdin w = l # rest"
    and "strip l = ''2''"
  shows "choose_connected_device sys (Some adb) w =
           (Inr None,
            w\<lparr>stdin := rest,
              trace := trace w @
                [Spawn [adb, ''devices''],
                 Print ''Connected devices/emulators:'',
                 Print (''1) '' @ serial @ '' ('' @ state @ '')''),
                 Prompt ''Pick device number (default 1): '',
                 Print ''Invalid choice.'']\<rparr>)
    \<and> (found_tools ''adb'' = Some adb \<longrightarrow>
         create_system_image_dump found_tools sys w =
           (Inr (), snd (choose_connected_device sys (Some adb) w)))"
proof -
  have c: "choose_connected_device sys (Some adb) w =
           (Inr None,
            w\<lparr>stdin := rest,
              trace := trace w @
                [Spawn [adb, ''devices''],
                 Print ''Connected devices/emulators:'',
                 Print (''1) '' @ serial @ '' ('' @ state @ '')''),
                 Prompt ''Pick device number (default 1): '',
                 Print ''Invalid choice.'']\<rparr>)"
  proof -
    have i: "py_int ''2'' = Some 2"
      by (simp add: int_defs str_defs)
    have x: "py_index [(serial, state)] (2 - 1) = None"
      by (simp add: py_index_def)
    have n: "str_nat 1 = ''1''"
      by (simp add: str_nat.simps)
    show ?thesis
      using assms i x n by (simp add: choose_connected_device_def io_defs)
  qed
  then show ?thesis
    using assms(1) by (simp add: create_system_image_dump_def bind_def ret_def)
qed

text \<open>
  C10: with a non-empty device list, the input "0" is read as the index \<open>0 - 1 = -1\<close>, and
  the chooser returns the serial of the last listed device; with exactly one device it
  returns that device's serial.
\<close>

theorem choose_index_zero_is_last:
  assumes "adb \<noteq> []"
    and "launch sys [adb, ''devices''] True = Inr res"
    and "returncode res = 0"
    and "parse_adb_devices (stdout res) = devices"
    and "devices \<noteq> []"
    and "stdin w = l # rest"
    and "strip l = ''0''"
  shows "py_int (strip l) = Some 0
    \<and> fst (choose_connected_device sys (Some adb) w) = Inr (Some (fst (last devices)))
    \<and> (devices = [(serial, state)] \<longrightarrow>
         fst (choose_connected_device sys (Some adb) w) = Inr (Some serial))"
proof -
  have i: "py_int ''0'' = Some 0"
    by (simp add: int_defs str_defs)
  have x: "py_index devices (0 - 1) = Some (last devices)"
    using assms(5) by (simp add: py_index_def last_conv_nth nat_diff_distrib' of_nat_diff Suc_leI)
  let ?w1 = "w\<lparr>trace := trace w @ [Spawn [adb, ''devices''], Print ''Connected devices/emulators:'']\<rparr>"
  obtain evs where evs: "print_devices 1 devices ?w1 = (Inr (), ?w1\<lparr>trace := trace ?w1 @ evs\<rparr>)"
    using print_devices_result by blast
  have "fst (choose_connected_device sys (Some adb) w) = Inr (Some (fst (last devices)))"
    using assms evs i x by (simp add: choose_connected_device_def io_defs)
  then show ?thesis using assms(7) i by auto
qed

lemma strip_digit: "strip ''0'' = ''0''" "strip ''1'' = ''1''" "strip ''2'' = ''2''" "strip ''3'' = ''3''"
  by (simp_all add: str_defs)

theorem choose_index_two_of_one_witness:
  "choose_connected_device adb_one_device (Some ''adb'') \<lparr>stdin = [''2''], trace = []\<rparr> =
     (Inr None,
      \<lparr>stdin = [],
        trace = [Spawn [''adb'', ''devices''],
                 Print ''Connected devices/emulators:'',
                 Print ''1) emulator-5554 (device)'',
                 Prompt ''Pick device number (default 1): '',
                 Print ''Invalid choice.'']\<rparr>)
   \<and> create_system_image_dump adb_tools adb_one_device \<lparr>stdin = [''2''], trace = []\<rparr> =
     (Inr (),
      \<lparr>stdin = [],
        trace = [Spawn [''adb'', ''devices''],
                 Print ''Connected devices/emulators:'',
                 Print ''1) emulator-5554 (device)'',
                 Prompt ''Pick device number (default 1): '',
                 Print ''Invalid choice.'']\<rparr>)"
proof -
  have a: "''adb'' \<noteq> []" by simp
  have c: "launch adb_one_device [''adb'', ''devices''] True
             = Inr \<lparr>returncode = 0, stdout = one_device_output\<rparr>"
    by (simp add: launch_def has_nul_def adb_one_device_def)
  have r: "returncode \<lparr>returncode = 0, stdout = one_device_output\<rparr> = 0"
    by simp
  have p: "parse_adb_devices (stdout \<lparr>returncode = 0, stdout = one_device_output\<rparr>)
             = [(''emulator-5554'', ''device'')]"
    by (simp add: one_device_parse)
  have s: "stdin \<lparr>stdin = [''2''], trace = []\<rparr> = ''2'' # []" by simp
  show ?thesis
    using choose_index_two_of_one [where sys = adb_one_device and adb = "''adb''"
        and found_tools = adb_tools, OF a c r p s strip_digit(3)]
    by (simp add: adb_tools_def)
qed

theorem choose_index_zero_is_last_witness:
  "py_int (strip ''0'') = Some 0
   \<and> fst (choose_connected_device adb_one_device (Some ''adb'') \<lparr>stdin = [''0''], trace = []\<rparr>)
       = Inr (Some ''emulator-5554'')"
proof -
  have a: "''adb'' \<noteq> []" by simp
  have c: "launch adb_one_device [''adb'', ''devices''] True
             = Inr \<lparr>returncode = 0, stdout = one_device_output\<rparr>"
    by (simp add: launch_def has_nul_def adb_one_device_def)
  have r: "returncode \<lparr>returncode = 0, stdout = one_device_output\<rparr> = 0"
    by simp
  have p: "parse_adb_devices (stdout \<lparr>returncode = 0, stdout = one_device_output\<rparr>)
             = [(''emulator-5554'', ''device'')]"
    by (simp add: one_device_parse)
  have n: "[(''emulator-5554'', ''device'')] \<noteq> []" by simp
  have s: "stdin \<lparr>stdin = [''0''], trace = []\<rparr> = ''0'' # []" by simp
  show ?thesis
    using choose_index_zero_is_last [where sys = adb_one_device and adb = "''adb''"
        and serial = "''emulator-5554''" and state = "''device''", OF a c r p n s strip_digit(1)]
    by simp
qed

text \<open>
  C6: the claim that an input other than "1" and "2" at the dump-method prompt is reported
  as invalid. The script does not do so: with one device attached, chosen by "1", the
  method input "3" runs method 2, the recursive pull of \<open>/system\<close>, and nothing is reported.
\<close>

theorem dump_method_three_runs_pull:
  "create_system_image_dump adb_tools adb_one_device \<lparr>stdin = [''1'', ''3''], trace = []\<rparr> =
     (Inr (),
      \<lparr>stdin = [],
        trace = [Spawn [''adb'', ''devices''],
                 Print ''Connected devices/emulators:'',
                 Print ''1) emulator-5554 (device)'',
                 Prompt ''Pick device number (default 1): '',
                 Print ''NOTE: Creating a system image typically requires root on the target device or running an emulator.'',
                 Print ''Options:'',
                 Print ''1) Attempt a block-level dd (requires root).'',
                 Print ''2) Try a recursive pull of /system (may be limited by permissions).'',
                 Prompt ''Choose method (1 or 2) [1]: '',
                 Print ''Attempting to pull /system -> emulator-5554_system (may be restricted on modern devices).'',
                 Print ''+ adb -s emulator-5554 pull /system emulator-5554_system'',
                 Spawn [''adb'', ''-s'', ''emulator-5554'', ''pull'', ''/system'', ''emulator-5554_system''],
                 Print ''/system pulled to local directory: emulator-5554_system'']\<rparr>)"
proof -
  have i: "py_int ''1'' = Some 1"
    by (simp add: int_defs str_defs)
  have x: "py_index [(''emulator-5554'', ''device'')] (1 - 1) = Some (''emulator-5554'', ''device'')"
    by (simp add: py_index_def)
  have n: "str_nat 1 = ''1''"
    by (simp add: str_nat.simps)
  have p: "parse_adb_devices one_device_output = [(''emulator-5554'', ''device'')]"
    by (rule one_device_parse)
  have r: "launch adb_one_device [''adb'', ''devices''] True
             = Inr \<lparr>returncode = 0, stdout = one_device_output\<rparr>"
    "launch adb_one_device [''adb'', ''-s'', ''emulator-5554'', ''pull'', ''/system'', ''emulator-5554_system''] False
             = Inr \<lparr>returncode = 0, stdout = one_device_output\<rparr>"
    by (simp_all add: launch_def has_nul_def adb_one_device_def)
  have c: "choose_connected_device adb_one_device (Some ''adb'') \<lparr>stdin = [''1'', ''3''], trace = []\<rparr> =
     (Inr (Some ''emulator-5554''),
      \<lparr>stdin = [''3''],
        trace = [Spawn [''adb'', ''devices''],
                 Print ''Connected devices/emulators:'',
                 Print ''1) emulator-5554 (device)'',
                 Prompt ''Pick device number (default 1): '']\<rparr>)"
    using i x n p r by (simp add: choose_connected_device_def io_defs strip_digit)
  show ?thesis
    using c r by (simp add: create_system_image_dump_def adb_tools_def dump_pull_def Let_def io_defs strip_digit)
qed

section \<open>Device catalog parser: proofs\<close>


lemma rstrip_Nil_iff: "(rstrip s = []) = (\<forall>c\<in>set s. isspace c)"
  by (simp add: rstrip_def dropWhile_eq_Nil_conv)

lemma lstrip_Nil_iff: "(lstrip s = []) = (\<forall>c\<in>set s. isspace c)"
  by (simp add: lstrip_def dropWhile_eq_Nil_conv)

lemma rstrip_append:
  "rstrip (p @ s) = (if \<forall>c\<in>set s. isspace c then rstrip p else p @ rstrip s)"
  by (simp add: rstrip_def dropWhile_append)

lemma rstrip_Cons:
  "rstrip (c # s) = (if isspace c \<and> (\<forall>x\<in>set s. isspace x) then [] else c # rstrip s)"
  using rstrip_append [of "[c]" s] by (auto simp: rstrip_def)

lemma all_space_dropWhile: "\<forall>c\<in>set s. isspace c \<Longrightarrow> dropWhile isspace s = []"
  by (simp add: dropWhile_eq_Nil_conv)

lemma rstrip_Nil [simp]: "rstrip [] = []"
  by (simp add: rstrip_def)

lemma lstrip_rstrip: "lstrip (rstrip s) = rstrip (lstrip s)"
proof (induction s)
  case Nil
  show ?case by (simp add: lstrip_def rstrip_def)
next
  case (Cons c s)
  show ?case
  proof (cases "isspace c")
    case True
    then show ?thesis
      using Cons by (auto simp: rstrip_Cons lstrip_def all_space_dropWhile)
  next
    case False
    then show ?thesis
      by (simp add: rstrip_Cons lstrip_def)
  qed
qed

lemma rstrip_idem: "rstrip (rstrip s) = rstrip s"
  by (simp add: rstrip_def)

lemma strip_rstrip: "strip (rstrip s) = strip s"
  by (simp add: strip_def lstrip_rstrip rstrip_idem)

lemma strip_prefixed:
  assumes "\<not> isspace a" and "\<not> isspace b"
  shows "strip (a # p @ b # s) = a # p @ b # rstrip s"
  using assms rstrip_append [of "a # p @ [b]" s]
  by (auto simp: strip_def lstrip_def rstrip_Cons rstrip_append)

lemma strip_id_line: "strip (CHR ''i'' # CHR ''d'' # CHR '':'' # i) = ''id:'' @ rstrip i"
  using strip_prefixed [of "CHR ''i''" "CHR '':''" "''d''" i] by (simp add: isspace_def)

lemma strip_name_line:
  "strip (CHR ''n'' # CHR ''a'' # CHR ''m'' # CHR ''e'' # CHR '':'' # n) = ''name:'' @ rstrip n"
  using strip_prefixed [of "CHR ''n''" "CHR '':''" "''ame''" n] by (simp add: isspace_def)

lemma splitlines_from_line:
  "\<not> list_ex is_linebreak l \<Longrightarrow>
   splitlines_from cur (l @ LF # rest) = (cur @ l) # splitlines_from [] rest"
  by (induction l arbitrary: cur) (simp_all add: is_linebreak_def LF_def CR_def)

lemma splitlines_render:
  "list_all well_formed_pair ps \<Longrightarrow> splitlines_from [] (render_pairs ps) = pair_lines ps"
proof (induction ps)
  case Nil
  show ?case by (simp add: render_pairs_def pair_lines_def)
next
  case (Cons p ps)
  obtain i n where p: "p = (i, n)" by (cases p)
  have i: "\<not> list_ex is_linebreak (''id:'' @ i)" and n: "\<not> list_ex is_linebreak (''name:'' @ n)"
    using Cons.prems by (simp_all add: p well_formed_pair_def is_linebreak_def)
  have "render_pairs (p # ps) = (''id:'' @ i) @ LF # ((''name:'' @ n) @ LF # render_pairs ps)"
    by (simp add: render_pairs_def p)
  then have "splitlines_from [] (render_pairs (p # ps))
               = (''id:'' @ i) # (''name:'' @ n) # splitlines_from [] (render_pairs ps)"
    using splitlines_from_line [OF i, of "[]"] splitlines_from_line [OF n, of "[]"]
    by simp
  then show ?case
    using Cons by (simp add: pair_lines_def p)
qed

lemma after_colon_id: "after_colon (CHR ''i'' # CHR ''d'' # CHR '':'' # r) = Some r"
  by (simp add: after_colon_def)

lemma after_colon_name:
  "after_colon (CHR ''n'' # CHR ''a'' # CHR ''m'' # CHR ''e'' # CHR '':'' # r) = Some r"
  by (simp add: after_colon_def)

lemma parse_lines_pair:
  "parse_lines devs cur ((''id:'' @ i) # (''name:'' @ n) # rest) =
   parse_lines (devs @ [pair_record (i, n)]) (Some (length devs)) rest"
  by (simp add: strip_id_line strip_name_line after_colon_id after_colon_name strip_rstrip
        pair_record_def Let_def)

lemma parse_lines_pairs:
  "parse_lines devs cur (pair_lines ps) = devs @ map pair_record ps"
proof (induction ps arbitrary: devs cur)
  case Nil
  show ?case by (simp add: pair_lines_def)
next
  case (Cons p ps)
  obtain i n where p: "p = (i, n)" by (cases p)
  have "pair_lines (p # ps) = (''id:'' @ i) # (''name:'' @ n) # pair_lines ps"
    by (simp add: pair_lines_def p)
  then show ?case
    using Cons [of "devs @ [pair_record (i, n)]" "Some (length devs)"]
    using parse_lines_pair [of devs cur i n "pair_lines ps"]
    by (simp add: p del: parse_lines.simps)
qed

text \<open>
  C2: for a catalog text made of N pairs of a line \<open>id:\<close> followed by a line \<open>name:\<close>
  (each text staying on its line), the parser returns exactly N records, in the order of
  the pairs; the record of a pair has the stripped text of its \<open>id:\<close> line as identifier
  and the stripped text of its \<open>name:\<close> line as name.
\<close>

theorem parse_well_formed_pairs:
  assumes "list_all well_formed_pair ps"
  shows "parse_device_list (render_pairs ps)
           = map (\<lambda>(i, n). \<lparr>dev_id = strip i, dev_name = Some (strip n)\<rparr>) ps
         \<and> length (parse_device_list (render_pairs ps)) = length ps"
proof -
  have "parse_device_list (render_pairs ps) = map pair_record ps"
    using assms by (simp add: parse_device_list_def splitlines_def splitlines_render parse_lines_pairs)
  moreover have "map pair_record ps = map (\<lambda>(i, n). \<lparr>dev_id = strip i, dev_name = Some (strip n)\<rparr>) ps"
    by (rule map_cong) (auto simp: pair_record_def)
  ultimately show ?thesis by simp
qed

theorem parse_well_formed_pairs_witness:
  "list_all well_formed_pair [('' 23'', '' pixel_5''), ('' 9 '', '' Nexus 6'')]
   \<and> parse_device_list (''id: 23'' @ [LF] @ ''name: pixel_5'' @ [LF] @ ''id: 9 '' @ [LF] @ ''name: Nexus 6'' @ [LF])
       = [\<lparr>dev_id = ''23'', dev_name = Some ''pixel_5''\<rparr>, \<lparr>dev_id = ''9'', dev_name = Some ''Nexus 6''\<rparr>]"
proof -
  have w: "list_all well_formed_pair [('' 23'', '' pixel_5''), ('' 9 '', '' Nexus 6'')]"
    by (simp add: well_formed_pair_def is_linebreak_def)
  show ?thesis
    using w parse_well_formed_pairs [OF w] by (simp add: render_pairs_def str_defs)
qed

lemma startswith_append: "startswith s p \<Longrightarrow> \<exists>r. s = p @ r"
  by (induction s p rule: startswith.induct) auto

lemma rstrip_last: "rstrip s \<noteq> [] \<Longrightarrow> \<not> isspace (last (rstrip s))"
  using hd_dropWhile [of isspace "rev s"] by (simp add: rstrip_def last_rev)

lemma strip_last: "strip s \<noteq> [] \<Longrightarrow> \<not> isspace (last (strip s))"
  by (simp add: strip_def rstrip_last)

lemma strip_nonempty: "c \<in> set s \<Longrightarrow> \<not> isspace c \<Longrightarrow> strip s \<noteq> []"
proof -
  assume c: "c \<in> set s" "\<not> isspace c"
  then have "lstrip s \<noteq> []"
    by (auto simp: lstrip_Nil_iff)
  then have "\<not> isspace (hd (lstrip s))"
    unfolding lstrip_def by (rule hd_dropWhile)
  with \<open>lstrip s \<noteq> []\<close> have "\<exists>x\<in>set (lstrip s). \<not> isspace x"
    by (metis hd_in_set)
  then show ?thesis
    by (simp add: strip_def rstrip_Nil_iff)
qed

lemma id_line_remainder:
  assumes "startswith (strip l) ''id:''" and "\<not> bare_id_line l"
    and "after_colon (strip l) = Some r"
  shows "strip r \<noteq> []"
proof -
  obtain r' where r': "strip l = ''id:'' @ r'"
    using startswith_append [OF assms(1)] by blast
  then have "r = r'"
    using assms(3) by (simp add: after_colon_def)
  moreover have "r' \<noteq> []"
    using assms(2) r' by (auto simp: bare_id_line_def)
  ultimately have "r \<noteq> []" and "last (strip l) = last r"
    using r' by simp_all
  moreover have "\<not> isspace (last (strip l))"
    using r' by (intro strip_last) simp
  ultimately show ?thesis
    using strip_nonempty [of "last r" r] by simp
qed

lemma update_name_ids:
  assumes "list_all (\<lambda>d. dev_id d \<noteq> []) devices"
  shows "list_all (\<lambda>d. dev_id d \<noteq> []) (devices[i := (devices ! i)\<lparr>dev_name := v\<rparr>])"
proof (cases "i < length devices")
  case True
  then have "dev_id (devices ! i) \<noteq> []"
    using assms by (simp add: list_all_length)
  then show ?thesis
    using assms set_update_subset_insert [of devices i "(devices ! i)\<lparr>dev_name := v\<rparr>"]
    by (auto simp: list_all_iff)
next
  case False
  then have "devices[i := (devices ! i)\<lparr>dev_name := v\<rparr>] = devices"
    by (simp add: list_update_beyond)
  then show ?thesis using assms by simp
qed

lemma parse_lines_ids:
  assumes "list_all (\<lambda>d. dev_id d \<noteq> []) devices"
    and "list_all (\<lambda>l. \<not> bare_id_line l) ls"
  shows "list_all (\<lambda>d. dev_id d \<noteq> []) (parse_lines devices current ls)"
  using assms
proof (induction ls arbitrary: devices current)
  case Nil
  then show ?case by simp
next
  case (Cons l ls)
  have rest: "list_all (\<lambda>l. \<not> bare_id_line l) ls" and l: "\<not> bare_id_line l"
    using Cons.prems(2) by simp_all
  show ?case
  proof (cases "strip l \<noteq> [] \<and> startswith (strip l) ''id:''")
    case True
    show ?thesis
    proof (cases "after_colon (strip l)")
      case None
      then show ?thesis using True Cons.prems(1) by (simp add: Let_def)
    next
      case (Some r)
      have "strip r \<noteq> []"
        using True l Some by (intro id_line_remainder [of l]) simp_all
      then have "list_all (\<lambda>d. dev_id d \<noteq> []) (devices @ [\<lparr>dev_id = strip r, dev_name = None\<rparr>])"
        using Cons.prems(1) by simp
      then show ?thesis
        using True Some Cons.IH [OF _ rest] by (simp add: Let_def)
    qed
  next
    case False
    then show ?thesis
      using Cons.IH [OF Cons.prems(1) rest] Cons.IH [OF update_name_ids [OF Cons.prems(1)] rest]
        Cons.prems(1)
      by (auto simp: Let_def split: option.splits)
  qed
qed

text \<open>
  C7, as stated, fails: a line \<open>id:\<close> with nothing after the colon starts a record whose
  identifier is the empty string.
\<close>

theorem parse_bare_id_counterexample:
  "parse_device_list ''id:'' = [\<lparr>dev_id = [], dev_name = None\<rparr>]"
  by (simp add: parse_device_list_def str_defs)

text \<open>
  C7 (amended): for every input text in which no line is a bare \<open>id:\<close> (the prefix with
  only whitespace around it), every record in the returned list has an \<open>id\<close> field whose
  value is a non-empty string.
\<close>

theorem parse_ids_nonempty:
  assumes "list_all (\<lambda>l. \<not> bare_id_line l) (splitlines out)"
  shows "list_all (\<lambda>d. dev_id d \<noteq> []) (parse_device_list out)"
  unfolding parse_device_list_def using assms by (intro parse_lines_ids) simp_all

theorem parse_ids_nonempty_witness:
  "list_all (\<lambda>l. \<not> bare_id_line l) (splitlines empty_id_listing) = False
   \<and> list_all (\<lambda>l. \<not> bare_id_line l) (splitlines plain_listing)
   \<and> list_all (\<lambda>d. dev_id d \<noteq> []) (parse_device_list plain_listing)"
proof -
  have b: "list_all (\<lambda>l. \<not> bare_id_line l) (splitlines plain_listing)"
    by (simp add: plain_listing_def bare_id_line_def str_defs)
  have e: "list_all (\<lambda>l. \<not> bare_id_line l) (splitlines empty_id_listing) = False"
    by (simp add: empty_id_listing_def bare_id_line_def str_defs)
  show ?thesis
    using b e parse_ids_nonempty [OF b] by simp
qed

end
